theory Spec2Isabelle
  imports Main
begin

section \<open>JavaScript strings and arrays\<close>

text \<open>
  A JavaScript string is modelled as a \<^typ>\<open>string\<close>, one \<^typ>\<open>char\<close> per code unit
  in the range 0..255 (header values are byte strings; the configuration strings the
  handler reads are status codes and MIME types). A value that may be \<^verbatim>\<open>undefined\<close>
  or \<^verbatim>\<open>null\<close> is a \<^typ>\<open>string option\<close>; \<open>truthy\<close> is the test JavaScript applies
  in \<^verbatim>\<open>if (x)\<close>, \<^verbatim>\<open>!x\<close> and \<^verbatim>\<open>x || y\<close>: absent values and the empty string are falsy.
\<close>

fun truthy :: "string option \<Rightarrow> bool" where
  "truthy None = False"
| "truthy (Some s) = (s \<noteq> [])"

text \<open>\<^verbatim>\<open>String.prototype.split(sep)\<close> with a one-character separator: the result always
  has at least one element, and \<^verbatim>\<open>"a,,b".split(",")\<close> keeps the empty token.\<close>

fun split :: "char \<Rightarrow> string \<Rightarrow> string list" where
  "split c [] = [[]]"
| "split c (x # xs) =
     (if x = c then [] # split c xs
      else (let r = split c xs in (x # hd r) # tl r))"

text \<open>White space as \<^verbatim>\<open>trim\<close> and \<^verbatim>\<open>parseInt\<close> see it, restricted to code units below
  256: TAB, LF, VT, FF, CR, SPACE and NBSP.\<close>

definition isWhiteSpace :: "char \<Rightarrow> bool" where
  "isWhiteSpace c = (of_char c \<in> {9, 10, 11, 12, 13, 32, 160 :: nat})"

definition trim :: "string \<Rightarrow> string" where
  "trim s = rev (dropWhile isWhiteSpace (rev (dropWhile isWhiteSpace s)))"

text \<open>\<^verbatim>\<open>toLowerCase\<close> on code units below 256: A-Z and the Latin-1 capitals move up by 32.\<close>

definition lowerChar :: "char \<Rightarrow> char" where
  "lowerChar c =
     (let n = (of_char c :: nat)
      in if (65 \<le> n \<and> n \<le> 90) \<or> (192 \<le> n \<and> n \<le> 222 \<and> n \<noteq> 215)
         then char_of (n + 32) else c)"

definition toLowerCase :: "string \<Rightarrow> string" where
  "toLowerCase s = map lowerChar s"

definition startsWith :: "string \<Rightarrow> string \<Rightarrow> bool" where
  "startsWith s p = (take (length p) s = p)"

text \<open>\<^verbatim>\<open>String.prototype.includes\<close>: substring containment.\<close>

fun strIncludes :: "string \<Rightarrow> string \<Rightarrow> bool" where
  "strIncludes [] t = (t = [])"
| "strIncludes (x # xs) t = (startsWith (x # xs) t \<or> strIncludes xs t)"

text \<open>\<^verbatim>\<open>Array.prototype.some\<close> and \<^verbatim>\<open>Array.prototype.includes\<close>.\<close>

primrec some :: "('a \<Rightarrow> bool) \<Rightarrow> 'a list \<Rightarrow> bool" where
  "some p [] = False"
| "some p (x # xs) = (p x \<or> some p xs)"

primrec arrayIncludes :: "'a list \<Rightarrow> 'a \<Rightarrow> bool" where
  "arrayIncludes [] v = False"
| "arrayIncludes (x # xs) v = (x = v \<or> arrayIncludes xs v)"

subsection \<open>Numbers and parseInt\<close>

text \<open>
  The Number values the handler computes with are \<^verbatim>\<open>NaN\<close>, the two infinities and
  doubles whose value is an integer; \<open>Num i\<close> is the double of value \<open>i\<close> (the two
  zeros are not told apart, as \<^verbatim>\<open>Array.prototype.includes\<close> does not).
\<close>

datatype number = NaN | Num int | PosInfinity | NegInfinity

text \<open>
  The Number value of a mathematical integer: exact below \<open>2^53\<close>, otherwise rounded
  to 53 significant bits, ties to even, and infinite from \<open>2^1024\<close> on.
\<close>

function bitLength :: "int \<Rightarrow> nat" where
  "bitLength n = (if n \<le> 0 then 0 else Suc (bitLength (n div 2)))"
  by pat_completeness auto
termination
  by (relation "measure nat") auto

declare bitLength.simps [simp del]

definition toNumber :: "int \<Rightarrow> number" where
  "toNumber x =
     (let a = \<bar>x\<bar>;
          r = (if a < 2 ^ 53 then a
               else (let e = bitLength a - 53;
                         q = a div 2 ^ e;
                         m = a mod 2 ^ e;
                         half = 2 ^ (e - 1);
                         q = (if half < m \<or> (m = half \<and> odd q) then q + 1 else q)
                     in q * 2 ^ e))
      in if 2 ^ 1024 \<le> r then (if x < 0 then NegInfinity else PosInfinity)
         else Num (if x < 0 then - r else r))"

text \<open>
  \<^verbatim>\<open>parseInt(s)\<close> without a radix: skip leading white space, read an optional sign, switch
  to radix 16 after a \<^verbatim>\<open>0x\<close> or \<^verbatim>\<open>0X\<close> prefix, and read the longest run of digits of
  the radix. An empty run gives \<^verbatim>\<open>NaN\<close>; whatever follows the run is ignored. The result
  is the Number value of the signed integer the run denotes.
\<close>

definition digitValue :: "char \<Rightarrow> nat" where
  "digitValue c =
     (let n = (of_char c :: nat)
      in if 48 \<le> n \<and> n \<le> 57 then n - 48
         else if 97 \<le> n \<and> n \<le> 122 then n - 87
         else if 65 \<le> n \<and> n \<le> 90 then n - 55
         else 36)"

definition isDigit :: "nat \<Rightarrow> char \<Rightarrow> bool" where
  "isDigit radix c = (digitValue c < radix)"

definition digitsValue :: "nat \<Rightarrow> string \<Rightarrow> int" where
  "digitsValue radix ds = foldl (\<lambda>acc d. acc * int radix + int (digitValue d)) 0 ds"

definition parseInt :: "string \<Rightarrow> number" where
  "parseInt str =
     (let s1 = dropWhile isWhiteSpace str;
          sign = (if s1 \<noteq> [] \<and> hd s1 = CHR ''-'' then - 1 else 1 :: int);
          s2 = (if s1 \<noteq> [] \<and> (hd s1 = CHR ''+'' \<or> hd s1 = CHR ''-'') then tl s1 else s1);
          hex = (startsWith s2 ''0x'' \<or> startsWith s2 ''0X'');
          radix = (if hex then 16 else 10 :: nat);
          s3 = (if hex then drop 2 s2 else s2);
          z = takeWhile (isDigit radix) s3
      in if z = [] then NaN else toNumber (sign * digitsValue radix z))"

definition isNaN :: "number \<Rightarrow> bool" where
  "isNaN v = (v = NaN)"

section \<open>Configuration\<close>

text \<open>The bindings the handler reads from \<^verbatim>\<open>env\<close>; each may be absent.\<close>

record env =
  GET_URL :: "string option"
  NORMAL_STATUS_CODES :: "string option"
  FORCE_INLINE_TYPES :: "string option"
  FORCE_DOWNLOAD_TYPES :: "string option"

definition CHARSET_DEFAULT :: string where
  "CHARSET_DEFAULT = ''utf-8''"

definition NULL_BODY_STATUS_CODES :: "int list" where
  "NULL_BODY_STATUS_CODES = [101, 204, 205, 304]"

text \<open>\<^verbatim>\<open>parseNormalStatusCodes\<close> (the same text in both source files).\<close>

definition parseNormalStatusCodes :: "string option \<Rightarrow> number list" where
  "parseNormalStatusCodes statusCodesStr =
     (if \<not> truthy statusCodesStr then [Num 200]
      else filter (\<lambda>code. \<not> isNaN code)
             (map (\<lambda>code. parseInt (trim code)) (split CHR '','' (the statusCodesStr))))"

text \<open>\<^verbatim>\<open>parseMimeList\<close>; \<^verbatim>\<open>filter(Boolean)\<close> drops the empty strings.\<close>

definition parseMimeList :: "string option \<Rightarrow> string list" where
  "parseMimeList mimeStr =
     (if \<not> truthy mimeStr then []
      else filter (\<lambda>t. t \<noteq> [])
             (map (\<lambda>t. toLowerCase (trim t)) (split CHR '','' (the mimeStr))))"

text \<open>Number to string conversion of an integer, as the template literals and
  \<^verbatim>\<open>'...' + statusCode\<close> perform it.\<close>

fun natToString :: "nat \<Rightarrow> string" where
  "natToString n =
     (if n < 10 then [char_of (48 + n)]
      else natToString (n div 10) @ [char_of (48 + n mod 10)])"

declare natToString.simps [simp del]

definition numberToString :: "int \<Rightarrow> string" where
  "numberToString i = (if i < 0 then ''-'' @ natToString (nat (- i)) else natToString (nat i))"

section \<open>Requests, responses and headers\<close>

text \<open>
  A \<^verbatim>\<open>Headers\<close> object is a list of pairs whose names are lower-cased; \<^verbatim>\<open>get\<close>,
  \<^verbatim>\<open>set\<close> and \<^verbatim>\<open>delete\<close> lower-case the name they are given. \<^verbatim>\<open>get\<close> joins the values
  of all entries of the name with a comma and a space. \<^verbatim>\<open>set\<close> overwrites the first
  entry of that name and removes the others, or appends a new entry; it stores the
  value as it is given (the handler stores the upstream host, a content-type and a
  disposition token; the trimming and validation of values is not modelled).
\<close>

type_synonym headers = "(string \<times> string) list"

fun joinValues :: "string list \<Rightarrow> string" where
  "joinValues [] = []"
| "joinValues [v] = v"
| "joinValues (v # vs) = v @ '', '' @ joinValues vs"

definition headersGet :: "headers \<Rightarrow> string \<Rightarrow> string option" where
  "headersGet h name =
     (let vs = map snd (filter (\<lambda>e. fst e = toLowerCase name) h)
      in if vs = [] then None else Some (joinValues vs))"

definition headersDelete :: "headers \<Rightarrow> string \<Rightarrow> headers" where
  "headersDelete h name = filter (\<lambda>e. fst e \<noteq> toLowerCase name) h"

fun setEntry :: "headers \<Rightarrow> string \<Rightarrow> string \<Rightarrow> headers" where
  "setEntry [] n v = [(n, v)]"
| "setEntry (e # h) n v =
     (if fst e = n then (n, v) # filter (\<lambda>e'. fst e' \<noteq> n) h else e # setEntry h n v)"

definition headersSet :: "headers \<Rightarrow> string \<Rightarrow> string \<Rightarrow> headers" where
  "headersSet h name v = setEntry h (toLowerCase name) v"

text \<open>
  The \<^verbatim>\<open>URL\<close> object of an inbound request, by component; \<open>search\<close> and \<open>hash\<close>
  carry their leading \<^verbatim>\<open>?\<close> and \<^verbatim>\<open>#\<close>, and \<open>urlToString\<close> is the serialisation
  \<^verbatim>\<open>toString\<close> returns. The \<^verbatim>\<open>hostname\<close> setter runs the host parser of the URL
  standard, which is not part of this repository: it is the parameter \<open>parseHost\<close> of
  \<^verbatim>\<open>buildReq\<close>, giving the host the setter stores for a value, or \<open>None\<close> when the
  setter leaves the URL as it is. The \<^verbatim>\<open>port\<close> setter given the empty string removes
  the port, and the \<^verbatim>\<open>protocol\<close> setter turns the \<^verbatim>\<open>http:\<close> or \<^verbatim>\<open>https:\<close> of an
  inbound request into \<^verbatim>\<open>https:\<close>.
\<close>

record url =
  protocol :: string
  hostname :: string
  port :: string
  pathname :: string
  search :: string
  hash :: string

definition urlToString :: "url \<Rightarrow> string" where
  "urlToString u =
     protocol u @ ''//'' @ hostname u @ (if port u = [] then [] else '':'' @ port u)
       @ pathname u @ search u @ hash u"

type_synonym parseHost = "string \<Rightarrow> string option"

definition setHostname :: "parseHost \<Rightarrow> url \<Rightarrow> string \<Rightarrow> url" where
  "setHostname parseHost u v =
     (case parseHost v of None \<Rightarrow> u | Some h \<Rightarrow> u\<lparr>hostname := h\<rparr>)"

text \<open>The inbound request; \<open>'b\<close> is the type of body streams, and an absent body is
  \<open>None\<close>.\<close>

record 'b request =
  req_method :: string
  req_url :: url
  req_headers :: headers
  req_body :: "'b option"

text \<open>The \<^verbatim>\<open>requestInit\<close> object handed to \<^verbatim>\<open>fetch\<close>; the \<^verbatim>\<open>body\<close> property is
  \<open>None\<close> when it is never assigned.\<close>

record 'b requestInit =
  init_method :: string
  init_headers :: headers
  init_redirect :: string
  init_body :: "'b option"

text \<open>
  A response body is either a stream handed over by the upstream or the HTML document
  of an error page. The document is a template literal; it is represented by the
  values of its holes, in the order of the template (title, status badge, heading,
  message, and in \<^verbatim>\<open>src/index.js\<close> the retry line). The constant markup around the holes
  is not reproduced.
\<close>

datatype 'b body = Stream 'b | Html "string list"

record 'b response =
  status :: int
  headers :: headers
  body :: "'b body option"

text \<open>
  What the handler can throw: \<^verbatim>\<open>fetch\<close> rejects with a network error, and the
  \<^verbatim>\<open>Response\<close> constructor throws \<^verbatim>\<open>RangeError\<close> and \<^verbatim>\<open>TypeError\<close>. The handler catches
  nothing.
\<close>

datatype error = NetworkError | RangeError | TypeError

text \<open>
  \<^verbatim>\<open>new Response(body, init)\<close>, with the status and the headers of \<open>init\<close>. The
  constructor of the Fetch standard throws \<^verbatim>\<open>RangeError\<close> unless the status is in the
  range 200 to 599, and \<^verbatim>\<open>TypeError\<close> when a body is given with one of the null body
  statuses 101, 103, 204, 205 and 304.
\<close>

definition nullBodyStatus :: "int list" where
  "nullBodyStatus = [101, 103, 204, 205, 304]"

definition new_Response :: "'b body option \<Rightarrow> int \<Rightarrow> headers \<Rightarrow> error + 'b response" where
  "new_Response b st h =
     (if st < 200 \<or> 599 < st then Inl RangeError
      else if b \<noteq> None \<and> arrayIncludes nullBodyStatus st then Inl TypeError
      else Inr \<lparr>status = st, headers = h, body = b\<rparr>)"

section \<open>Request rewriting\<close>

text \<open>\<^verbatim>\<open>buildReq\<close> of \<^verbatim>\<open>workers.js\<close>.\<close>

definition removeHeaders :: "string list" where
  "removeHeaders =
     [''host'', ''cf-connecting-ip'', ''cf-ipcountry'', ''cf-ray'', ''cf-visitor'', ''cdn-loop'']"

definition buildReq ::
  "parseHost \<Rightarrow> 'b request \<Rightarrow> env \<Rightarrow> (string \<times> 'b requestInit) option" where
  "buildReq parseHost request e =
     (let targetHost = GET_URL e
      in if \<not> truthy targetHost then None
         else
           (let u = req_url request;
                u = setHostname parseHost u (the targetHost);
                u = u\<lparr>port := []\<rparr>;
                u = u\<lparr>protocol := ''https:''\<rparr>;
                requestInit =
                  \<lparr>init_method = req_method request,
                   init_headers = req_headers request,
                   init_redirect = ''follow'',
                   init_body = None\<rparr>;
                requestInit =
                  (if \<not> arrayIncludes [''GET'', ''HEAD''] (req_method request)
                   then requestInit\<lparr>init_body := req_body request\<rparr>
                   else requestInit);
                requestInit =
                  requestInit\<lparr>init_headers :=
                    foldl headersDelete (init_headers requestInit) removeHeaders\<rparr>;
                requestInit =
                  requestInit\<lparr>init_headers :=
                    headersSet (init_headers requestInit) ''host'' (the targetHost)\<rparr>
            in Some (urlToString u, requestInit)))"

text \<open>\<^verbatim>\<open>buildReq\<close> of \<^verbatim>\<open>src/index.js\<close>: the six deletions are written out one by one.\<close>

definition index_buildReq ::
  "parseHost \<Rightarrow> 'b request \<Rightarrow> env \<Rightarrow> (string \<times> 'b requestInit) option" where
  "index_buildReq parseHost request e =
     (let targetHost = GET_URL e
      in if \<not> truthy targetHost then None
         else
           (let u = req_url request;
                u = setHostname parseHost u (the targetHost);
                u = u\<lparr>port := []\<rparr>;
                u = u\<lparr>protocol := ''https:''\<rparr>;
                requestInit =
                  \<lparr>init_method = req_method request,
                   init_headers = req_headers request,
                   init_redirect = ''follow'',
                   init_body = None\<rparr>;
                requestInit =
                  (if \<not> arrayIncludes [''GET'', ''HEAD''] (req_method request)
                   then requestInit\<lparr>init_body := req_body request\<rparr>
                   else requestInit);
                h = init_headers requestInit;
                h = headersDelete h ''host'';
                h = headersDelete h ''cf-connecting-ip'';
                h = headersDelete h ''cf-ipcountry'';
                h = headersDelete h ''cf-ray'';
                h = headersDelete h ''cf-visitor'';
                h = headersDelete h ''cdn-loop'';
                h = headersSet h ''host'' (the targetHost)
            in Some (urlToString u, requestInit\<lparr>init_headers := h\<rparr>)))"

section \<open>Error pages\<close>

text \<open>
  The string literals of the source that are not ASCII, as the bytes of their UTF-8
  encoding.
\<close>

definition MSG_NOT_FOUND :: string where
  \<comment> \<open>The message of a 404 page\<close>
  "MSG_NOT_FOUND =
     [CHR 0xE6, CHR 0x8A, CHR 0xB1, CHR 0xE6, CHR 0xAD, CHR 0x89, CHR 0xEF, CHR 0xBC,
       CHR 0x8C, CHR 0xE6, CHR 0x82, CHR 0xA8, CHR 0xE8, CHR 0xAF, CHR 0xB7, CHR 0xE6,
       CHR 0xB1, CHR 0x82, CHR 0xE7, CHR 0x9A, CHR 0x84, CHR 0xE8, CHR 0xB5, CHR 0x84,
       CHR 0xE6, CHR 0xBA, CHR 0x90, CHR 0xE6, CHR 0x9C, CHR 0xAA, CHR 0xE6, CHR 0x89,
       CHR 0xBE, CHR 0xE5, CHR 0x88, CHR 0xB0, CHR 0xE3, CHR 0x80, CHR 0x82]"

definition MSG_UNAVAILABLE :: string where
  \<comment> \<open>The message of every other status page\<close>
  "MSG_UNAVAILABLE =
     [CHR 0xE8, CHR 0xAF, CHR 0xB7, CHR 0xE6, CHR 0xB1, CHR 0x82, CHR 0xE7, CHR 0x9A,
       CHR 0x84, CHR 0xE8, CHR 0xB5, CHR 0x84, CHR 0xE6, CHR 0xBA, CHR 0x90, CHR 0xE5,
       CHR 0x8F, CHR 0xAF, CHR 0xE8, CHR 0x83, CHR 0xBD, CHR 0xE9, CHR 0x9C, CHR 0x80,
       CHR 0xE8, CHR 0xA6, CHR 0x81, CHR 0xE7, CHR 0x89, CHR 0xB9, CHR 0xE6, CHR 0xAE,
       CHR 0x8A, CHR 0xE6, CHR 0x9D, CHR 0x83, CHR 0xE9, CHR 0x99, CHR 0x90, CHR 0xE6,
       CHR 0x89, CHR 0x8D, CHR 0xE8, CHR 0x83, CHR 0xBD, CHR 0xE8, CHR 0xAE, CHR 0xBF,
       CHR 0xE9, CHR 0x97, CHR 0xAE, CHR 0xEF, CHR 0xBC, CHR 0x8C, CHR 0xE6, CHR 0x88,
       CHR 0x96, CHR 0xE8, CHR 0x80, CHR 0x85, CHR 0xE6, CHR 0x9A, CHR 0x82, CHR 0xE6,
       CHR 0x97, CHR 0xB6, CHR 0xE4, CHR 0xB8, CHR 0x8D, CHR 0xE5, CHR 0x8F, CHR 0xAF,
       CHR 0xE7, CHR 0x94, CHR 0xA8, CHR 0xE3, CHR 0x80, CHR 0x82]"

definition TEXT_CONFIG_ERROR :: string where
  \<comment> \<open>Title and heading of a configuration page\<close>
  "TEXT_CONFIG_ERROR =
     [CHR 0xE9, CHR 0x85, CHR 0x8D, CHR 0xE7, CHR 0xBD, CHR 0xAE, CHR 0xE9, CHR 0x94,
       CHR 0x99, CHR 0xE8, CHR 0xAF, CHR 0xAF]"

definition TEXT_STATUS :: string where
  \<comment> \<open>Title prefix of a status page\<close>
  "TEXT_STATUS =
     [CHR 0xE7, CHR 0x8A, CHR 0xB6, CHR 0xE6, CHR 0x80, CHR 0x81] @ '' ''"

definition TEXT_REQUEST_STATUS :: string where
  \<comment> \<open>Heading of a status page\<close>
  "TEXT_REQUEST_STATUS =
     [CHR 0xE8, CHR 0xAF, CHR 0xB7, CHR 0xE6, CHR 0xB1, CHR 0x82, CHR 0xE7, CHR 0x8A,
       CHR 0xB6, CHR 0xE6, CHR 0x80, CHR 0x81]"

definition MSG_NO_GET_URL :: string where
  \<comment> \<open>The message passed when GET_URL is not configured\<close>
  "MSG_NO_GET_URL =
     [CHR 0xE6, CHR 0x9C, CHR 0xAA, CHR 0xE9, CHR 0x85, CHR 0x8D, CHR 0xE7, CHR 0xBD,
       CHR 0xAE] @ '' GET_URL'' @ [CHR 0xEF, CHR 0xBC, CHR 0x8C, CHR 0xE8, CHR 0xAF,
       CHR 0xB7, CHR 0xE5, CHR 0x85, CHR 0x88, CHR 0xE9, CHR 0x85, CHR 0x8D, CHR 0xE7,
       CHR 0xBD, CHR 0xAE, CHR 0xE7, CHR 0x8E, CHR 0xAF, CHR 0xE5, CHR 0xA2, CHR 0x83,
       CHR 0xE5, CHR 0x8F, CHR 0x98, CHR 0xE9, CHR 0x87, CHR 0x8F, CHR 0xE3, CHR 0x80,
       CHR 0x82]"

definition MSG_BUILD_FAILED :: string where
  \<comment> \<open>The message passed when buildReq returns null\<close>
  "MSG_BUILD_FAILED =
     [CHR 0xE6, CHR 0x97, CHR 0xA0, CHR 0xE6, CHR 0xB3, CHR 0x95, CHR 0xE6, CHR 0x9E,
       CHR 0x84, CHR 0xE5, CHR 0xBB, CHR 0xBA, CHR 0xE8, CHR 0xAF, CHR 0xB7, CHR 0xE6,
       CHR 0xB1, CHR 0x82, CHR 0xEF, CHR 0xBC, CHR 0x8C, CHR 0xE8, CHR 0xAF, CHR 0xB7,
       CHR 0xE6, CHR 0xA3, CHR 0x80, CHR 0xE6, CHR 0x9F, CHR 0xA5, CHR 0xE7, CHR 0x8E,
       CHR 0xAF, CHR 0xE5, CHR 0xA2, CHR 0x83, CHR 0xE5, CHR 0x8F, CHR 0x98, CHR 0xE9,
       CHR 0x87, CHR 0x8F, CHR 0xE9, CHR 0x85, CHR 0x8D, CHR 0xE7, CHR 0xBD, CHR 0xAE,
       CHR 0xE3, CHR 0x80, CHR 0x82]"

definition TEXT_RETRY :: string where
  \<comment> \<open>The retry line of the index.js template\<close>
  "TEXT_RETRY =
     ''<div class='' @ [CHR 0x22] @ ''retry-message'' @ [CHR 0x22] @ ''>'' @ [CHR 0xE8,
       CHR 0xAF, CHR 0xB7, CHR 0xE7, CHR 0xA8, CHR 0x8D, CHR 0xE5, CHR 0x90, CHR 0x8E,
       CHR 0xE5, CHR 0x86, CHR 0x8D, CHR 0xE8, CHR 0xAF, CHR 0x95] @ ''</div>''"

text \<open>\<^verbatim>\<open>generateErrorPage\<close> of \<^verbatim>\<open>workers.js\<close>; \<open>customMessage\<close> defaults to \<^verbatim>\<open>null\<close>.\<close>

definition generateErrorPage :: "int \<Rightarrow> string option \<Rightarrow> error + 'b response" where
  "generateErrorPage statusCode customMessage =
     (let msg = (if truthy customMessage then the customMessage
                 else if statusCode = 404 then MSG_NOT_FOUND else MSG_UNAVAILABLE)
      in new_Response
           (Some (Html
             [if truthy customMessage then TEXT_CONFIG_ERROR
              else TEXT_STATUS @ numberToString statusCode,
              if truthy customMessage then ''!'' else numberToString statusCode,
              if truthy customMessage then TEXT_CONFIG_ERROR else TEXT_REQUEST_STATUS,
              msg]))
           (if truthy customMessage then 500 else statusCode)
           [(''content-type'', ''text/html; charset=utf-8'')])"

text \<open>\<^verbatim>\<open>generateErrorPage\<close> of \<^verbatim>\<open>src/index.js\<close>.\<close>

definition index_generateErrorPage :: "int \<Rightarrow> string option \<Rightarrow> error + 'b response" where
  "index_generateErrorPage statusCode customMessage =
     (let friendlyMessage =
            (if truthy customMessage then the customMessage
             else if statusCode = 404 then MSG_NOT_FOUND else MSG_UNAVAILABLE)
      in new_Response
           (Some (Html
             [if truthy customMessage then TEXT_CONFIG_ERROR
              else TEXT_STATUS @ numberToString statusCode,
              if truthy customMessage then ''!'' else numberToString statusCode,
              if truthy customMessage then TEXT_CONFIG_ERROR else TEXT_REQUEST_STATUS,
              friendlyMessage,
              if truthy customMessage then [] else TEXT_RETRY]))
           (if truthy customMessage then 500 else statusCode)
           [(''content-type'', ''text/html; charset=utf-8'')])"

section \<open>Disposition policy\<close>

text \<open>\<^verbatim>\<open>getDisposition\<close> of \<^verbatim>\<open>workers.js\<close>.\<close>

definition otherPreview :: "string list" where
  "otherPreview =
     [''application/json'', ''application/xml'', ''application/javascript'', ''text/javascript'']"

definition getDisposition :: "string option \<Rightarrow> env \<Rightarrow> string" where
  "getDisposition contentType e =
     (if \<not> truthy contentType then ''attachment''
      else
        (let contentType = toLowerCase (the contentType);
             forceInlineList = parseMimeList (FORCE_INLINE_TYPES e);
             forceDownloadList = parseMimeList (FORCE_DOWNLOAD_TYPES e)
         in if some (\<lambda>t. strIncludes contentType t) forceInlineList then ''inline''
            else if some (\<lambda>t. strIncludes contentType t) forceDownloadList then ''attachment''
            else if startsWith contentType ''image/'' then ''inline''
            else if startsWith contentType ''text/'' then ''inline''
            else if strIncludes contentType ''application/pdf'' then ''inline''
            else if some (\<lambda>t. strIncludes contentType t) otherPreview then ''inline''
            else ''attachment''))"

text \<open>\<^verbatim>\<open>shouldPreview\<close> of \<^verbatim>\<open>src/index.js\<close>.\<close>

definition PREVIEW_TYPES :: "string list" where
  "PREVIEW_TYPES =
     [''text/'', ''image/'', ''application/json'', ''application/xml'', ''application/javascript'']"

definition shouldPreview :: "string option \<Rightarrow> bool" where
  "shouldPreview contentType =
     (if \<not> truthy contentType then False
      else some (\<lambda>type. strIncludes (the contentType) type) PREVIEW_TYPES)"

section \<open>The handler\<close>

text \<open>
  \<^verbatim>\<open>fetch\<close> is the network: a parameter of the handler that takes the state \<open>'w\<close> of the
  world, returns the upstream response or fails, and returns the new state. Whatever
  \<^verbatim>\<open>fetch\<close> or a constructor throws leaves the handler as it is.
\<close>

type_synonym ('b, 'w) fetch =
  "string \<Rightarrow> 'b requestInit \<Rightarrow> 'w \<Rightarrow> (error + 'b response) \<times> 'w"

text \<open>\<^verbatim>\<open>getResponse\<close> of \<^verbatim>\<open>workers.js\<close>.\<close>

definition getResponse ::
  "parseHost \<Rightarrow> ('b, 'w) fetch \<Rightarrow> 'b request \<Rightarrow> env \<Rightarrow> 'w \<Rightarrow> (error + 'b response) \<times> 'w"
  where
  "getResponse parseHost fetch request e w =
     (if \<not> truthy (GET_URL e) then (generateErrorPage 0 (Some MSG_NO_GET_URL), w)
      else
        (let normalStatusCodes = parseNormalStatusCodes (NORMAL_STATUS_CODES e);
             reqData = buildReq parseHost request e
         in case reqData of
              None \<Rightarrow> (generateErrorPage 0 (Some MSG_BUILD_FAILED), w)
            | Some (u, requestInit) \<Rightarrow>
                (case fetch u requestInit w of
                   (Inl err, w') \<Rightarrow> (Inl err, w')
                 | (Inr response, w') \<Rightarrow>
                     (if \<not> arrayIncludes normalStatusCodes (Num (status response)) then
                        (if arrayIncludes NULL_BODY_STATUS_CODES (status response)
                         then (new_Response None (status response) [], w')
                         else (generateErrorPage (status response) None, w'))
                      else
                        (case new_Response
                                (if arrayIncludes NULL_BODY_STATUS_CODES (status response)
                                 then None else body response)
                                (status response) (headers response) of
                           Inl err \<Rightarrow> (Inl err, w')
                         | Inr newResponse \<Rightarrow>
                             (let contentType =
                                    headersGet (headers newResponse) ''Content-Type'';
                                  newResponse =
                                    (if truthy contentType
                                        \<and> startsWith (the contentType) ''text/''
                                     then newResponse\<lparr>headers :=
                                            headersSet (headers newResponse) ''Content-Type''
                                              (the contentType @ ''; charset=''
                                                 @ CHARSET_DEFAULT)\<rparr>
                                     else newResponse);
                                  disposition = getDisposition contentType e;
                                  newResponse =
                                    newResponse\<lparr>headers :=
                                      headersSet (headers newResponse) ''Content-Disposition''
                                        disposition\<rparr>
                              in (Inr newResponse, w')))))))"

text \<open>\<^verbatim>\<open>getResponse\<close> of \<^verbatim>\<open>src/index.js\<close>.\<close>

definition index_getResponse ::
  "parseHost \<Rightarrow> ('b, 'w) fetch \<Rightarrow> 'b request \<Rightarrow> env \<Rightarrow> 'w \<Rightarrow> (error + 'b response) \<times> 'w"
  where
  "index_getResponse parseHost fetch request e w =
     (if \<not> truthy (GET_URL e) then (index_generateErrorPage 0 (Some MSG_NO_GET_URL), w)
      else
        (let normalStatusCodes = parseNormalStatusCodes (NORMAL_STATUS_CODES e);
             requestData = index_buildReq parseHost request e
         in case requestData of
              None \<Rightarrow> (index_generateErrorPage 0 (Some MSG_BUILD_FAILED), w)
            | Some (u, requestInit) \<Rightarrow>
                (case fetch u requestInit w of
                   (Inl err, w') \<Rightarrow> (Inl err, w')
                 | (Inr response, w') \<Rightarrow>
                     (if \<not> arrayIncludes normalStatusCodes (Num (status response))
                      then (index_generateErrorPage (status response) None, w')
                      else
                        (case new_Response (body response) (status response)
                                (headers response) of
                           Inl err \<Rightarrow> (Inl err, w')
                         | Inr newResponse \<Rightarrow>
                             (let contentType =
                                    headersGet (headers newResponse) ''Content-Type'';
                                  isPreview = shouldPreview contentType;
                                  newResponse =
                                    (if isPreview
                                     then newResponse\<lparr>headers :=
                                            headersSet (headers newResponse) ''Content-Type''
                                              (the contentType @ ''; charset=''
                                                 @ CHARSET_DEFAULT)\<rparr>
                                     else newResponse);
                                  newResponse =
                                    newResponse\<lparr>headers :=
                                      headersSet (headers newResponse) ''Content-Disposition''
                                        (if isPreview then ''inline'' else ''attachment'')\<rparr>
                              in (Inr newResponse, w')))))))"

section \<open>Example inputs\<close>

text \<open>
  Concrete inputs on which the theorems below are evaluated: a host parser that stores
  the value it is given, a network that counts its calls in the state and always
  answers with the same response, an inbound request that carries a body, a
  configuration with only the upstream host, and upstream responses with one header,
  with and without a body.
\<close>

definition plainHost :: parseHost where
  "plainHost v = Some v"

definition countingFetch :: "nat response \<Rightarrow> (nat, nat) fetch" where
  "countingFetch r u init calls = (Inr r, Suc calls)"

definition inbound :: "string \<Rightarrow> nat request" where
  "inbound m =
     \<lparr>req_method = m,
      req_url = \<lparr>protocol = ''http:'', hostname = ''edge.example'', port = ''8080'',
                 pathname = ''/a.txt'', search = ''?x=1'', hash = []\<rparr>,
      req_headers = [(''host'', ''edge.example''), (''accept'', ''*/*''), (''cf-ray'', ''1'')],
      req_body = Some 1\<rparr>"

definition config :: "string option \<Rightarrow> env" where
  "config host =
     \<lparr>GET_URL = host, NORMAL_STATUS_CODES = None,
      FORCE_INLINE_TYPES = None, FORCE_DOWNLOAD_TYPES = None\<rparr>"

definition upstream :: "int \<Rightarrow> string \<Rightarrow> nat response" where
  "upstream st ct = \<lparr>status = st, headers = [(''content-type'', ct)], body = Some (Stream 7)\<rparr>"

definition upstreamEmpty :: "int \<Rightarrow> string \<Rightarrow> nat response" where
  "upstreamEmpty st ct = \<lparr>status = st, headers = [(''content-type'', ct)], body = None\<rparr>"

section \<open>Basic facts\<close>

lemma lower_content_type: "toLowerCase ''Content-Type'' = ''content-type''"
  by code_simp

lemma lower_content_disposition:
  "toLowerCase ''Content-Disposition'' = ''content-disposition''"
  by code_simp

lemma filter_setEntry:
  "filter (\<lambda>e. fst e = k) (setEntry h n v)
     = (if k = n then [(n, v)] else filter (\<lambda>e. fst e = k) h)"
proof (induction h)
  case Nil
  show ?case by auto
next
  case (Cons e h)
  have 1: "filter (\<lambda>e. fst e = n) (filter (\<lambda>e'. fst e' \<noteq> n) h) = []"
    by (induction h) auto
  have 2: "k \<noteq> n \<Longrightarrow>
      filter (\<lambda>e. fst e = k) (filter (\<lambda>e'. fst e' \<noteq> n) h) = filter (\<lambda>e. fst e = k) h"
    by (induction h) auto
  show ?case using Cons 1 2 by auto
qed

lemma headersGet_headersSet:
  "headersGet (headersSet h n v) m =
     (if toLowerCase m = toLowerCase n then Some v else headersGet h m)"
  by (simp add: headersGet_def headersSet_def filter_setEntry)

lemma buildReq_Some_iff:
  "(\<exists>x. buildReq parseHost request e = Some x) \<longleftrightarrow> truthy (GET_URL e)"
  by (simp add: buildReq_def Let_def)

text \<open>The two variants of \<^verbatim>\<open>buildReq\<close> compute the same request.\<close>

lemma index_buildReq_eq: "index_buildReq parseHost request e = buildReq parseHost request e"
  by (simp add: index_buildReq_def buildReq_def Let_def removeHeaders_def)

lemma truthy_MSG_NO_GET_URL: "truthy (Some MSG_NO_GET_URL)"
  by (simp add: MSG_NO_GET_URL_def)

lemma arrayIncludes_NULL_BODY:
  "arrayIncludes NULL_BODY_STATUS_CODES s \<longleftrightarrow> s = 101 \<or> s = 204 \<or> s = 205 \<or> s = 304"
  by (auto simp: NULL_BODY_STATUS_CODES_def)

lemma arrayIncludes_nullBodyStatus:
  "arrayIncludes nullBodyStatus s \<longleftrightarrow> s = 101 \<or> s = 103 \<or> s = 204 \<or> s = 205 \<or> s = 304"
  by (auto simp: nullBodyStatus_def)

text \<open>The constructor, by case.\<close>

lemma new_Response_RangeError:
  "st < 200 \<or> 599 < st \<Longrightarrow> new_Response b st h = Inl RangeError"
  by (auto simp: new_Response_def)

lemma new_Response_no_body:
  "200 \<le> st \<Longrightarrow> st \<le> 599 \<Longrightarrow>
     new_Response None st h = Inr \<lparr>status = st, headers = h, body = None\<rparr>"
  by (simp add: new_Response_def)

lemma new_Response_body:
  "200 \<le> st \<Longrightarrow> st \<le> 599 \<Longrightarrow> st \<notin> {204, 205, 304} \<Longrightarrow>
     new_Response (Some b) st h = Inr \<lparr>status = st, headers = h, body = Some b\<rparr>"
  by (auto simp: new_Response_def arrayIncludes_nullBodyStatus)

lemma new_Response_TypeError:
  "st \<in> {204, 205, 304} \<Longrightarrow> new_Response (Some b) st h = Inl TypeError"
  by (auto simp: new_Response_def arrayIncludes_nullBodyStatus)

lemma new_Response_Inr:
  "new_Response b st h = Inr r \<Longrightarrow>
     r = \<lparr>status = st, headers = h, body = b\<rparr> \<and> 200 \<le> st \<and> st \<le> 599
     \<and> (b \<noteq> None \<longrightarrow> st \<notin> {101, 103, 204, 205, 304})"
  by (auto simp: new_Response_def arrayIncludes_nullBodyStatus split: if_splits)

lemma generateErrorPage_null:
  "generateErrorPage s None =
     new_Response
       (Some (Html [TEXT_STATUS @ numberToString s, numberToString s, TEXT_REQUEST_STATUS,
                    if s = 404 then MSG_NOT_FOUND else MSG_UNAVAILABLE]))
       s [(''content-type'', ''text/html; charset=utf-8'')]"
  by (simp add: generateErrorPage_def)

lemma index_generateErrorPage_null:
  "index_generateErrorPage s None =
     new_Response
       (Some (Html [TEXT_STATUS @ numberToString s, numberToString s, TEXT_REQUEST_STATUS,
                    if s = 404 then MSG_NOT_FOUND else MSG_UNAVAILABLE, TEXT_RETRY]))
       s [(''content-type'', ''text/html; charset=utf-8'')]"
  by (simp add: index_generateErrorPage_def)

text \<open>What \<^verbatim>\<open>getResponse\<close> of \<^verbatim>\<open>workers.js\<close> returns once \<^verbatim>\<open>fetch\<close> has answered, by
  the branch taken.\<close>

lemma getResponse_rejected:
  assumes "buildReq parseHost request e = Some (u, init)"
    and "fetch u init w = (Inr response, w')"
    and "\<not> arrayIncludes (parseNormalStatusCodes (NORMAL_STATUS_CODES e))
             (Num (status response))"
  shows "getResponse parseHost fetch request e w =
           (if arrayIncludes NULL_BODY_STATUS_CODES (status response)
            then new_Response None (status response) []
            else generateErrorPage (status response) None, w')"
proof -
  from assms(1) have "truthy (GET_URL e)" using buildReq_Some_iff by blast
  with assms show ?thesis by (simp add: getResponse_def)
qed

lemma getResponse_allowed:
  assumes "buildReq parseHost request e = Some (u, init)"
    and "fetch u init w = (Inr response, w')"
    and "arrayIncludes (parseNormalStatusCodes (NORMAL_STATUS_CODES e)) (Num (status response))"
    and "200 \<le> status response" and "status response \<le> 599"
  shows "getResponse parseHost fetch request e w =
           (Inr \<lparr>status = status response,
                 headers =
                   headersSet
                     (if truthy (headersGet (headers response) ''Content-Type'')
                         \<and> startsWith (the (headersGet (headers response) ''Content-Type''))
                               ''text/''
                      then headersSet (headers response) ''Content-Type''
                             (the (headersGet (headers response) ''Content-Type'')
                                @ ''; charset=utf-8'')
                      else headers response)
                     ''Content-Disposition''
                     (getDisposition (headersGet (headers response) ''Content-Type'') e),
                 body = (if arrayIncludes NULL_BODY_STATUS_CODES (status response)
                         then None else body response)\<rparr>, w')"
proof -
  from assms(1) have t: "truthy (GET_URL e)" using buildReq_Some_iff by blast
  have n: "new_Response
             (if arrayIncludes NULL_BODY_STATUS_CODES (status response)
              then None else body response)
             (status response) (headers response)
           = Inr \<lparr>status = status response, headers = headers response,
                  body = (if arrayIncludes NULL_BODY_STATUS_CODES (status response)
                          then None else body response)\<rparr>"
    using assms(4,5)
    by (auto simp: new_Response_def arrayIncludes_NULL_BODY arrayIncludes_nullBodyStatus)
  show ?thesis
    using assms(1-3) t by (simp add: getResponse_def n Let_def CHARSET_DEFAULT_def)
qed

lemma getResponse_allowed_RangeError:
  assumes "buildReq parseHost request e = Some (u, init)"
    and "fetch u init w = (Inr response, w')"
    and "arrayIncludes (parseNormalStatusCodes (NORMAL_STATUS_CODES e)) (Num (status response))"
    and "status response < 200 \<or> 599 < status response"
  shows "getResponse parseHost fetch request e w = (Inl RangeError, w')"
proof -
  from assms(1) have t: "truthy (GET_URL e)" using buildReq_Some_iff by blast
  show ?thesis
    using assms t by (simp add: getResponse_def new_Response_RangeError)
qed

text \<open>The same for \<^verbatim>\<open>getResponse\<close> of \<^verbatim>\<open>src/index.js\<close>.\<close>

lemma index_getResponse_rejected:
  assumes "buildReq parseHost request e = Some (u, init)"
    and "fetch u init w = (Inr response, w')"
    and "\<not> arrayIncludes (parseNormalStatusCodes (NORMAL_STATUS_CODES e))
             (Num (status response))"
  shows "index_getResponse parseHost fetch request e w =
           (index_generateErrorPage (status response) None, w')"
proof -
  from assms(1) have "truthy (GET_URL e)" using buildReq_Some_iff by blast
  with assms show ?thesis by (simp add: index_getResponse_def index_buildReq_eq)
qed

lemma index_getResponse_allowed:
  assumes "buildReq parseHost request e = Some (u, init)"
    and "fetch u init w = (Inr response, w')"
    and "arrayIncludes (parseNormalStatusCodes (NORMAL_STATUS_CODES e)) (Num (status response))"
  shows "(\<forall>err. new_Response (body response) (status response) (headers response) = Inl err
            \<longrightarrow> index_getResponse parseHost fetch request e w = (Inl err, w'))
         \<and> (\<forall>r. new_Response (body response) (status response) (headers response) = Inr r
            \<longrightarrow> (\<exists>out. index_getResponse parseHost fetch request e w = (Inr out, w')
                   \<and> status out = status r \<and> body out = body r))"
proof -
  from assms(1) have "truthy (GET_URL e)" using buildReq_Some_iff by blast
  with assms show ?thesis by (auto simp: index_getResponse_def index_buildReq_eq Let_def)
qed

lemma getDisposition_token:
  "getDisposition ct e = ''inline'' \<or> getDisposition ct e = ''attachment''"
  by (simp add: getDisposition_def Let_def)

text \<open>Evaluation on the example inputs.\<close>

lemma parseNormalStatusCodes_absent: "parseNormalStatusCodes None = [Num 200]"
  by (simp add: parseNormalStatusCodes_def)

lemma allowed_config:
  "arrayIncludes (parseNormalStatusCodes (NORMAL_STATUS_CODES (config h))) (Num s) \<longleftrightarrow> s = 200"
  by (auto simp: config_def parseNormalStatusCodes_absent)

lemma allowed_200_101: "arrayIncludes (parseNormalStatusCodes (Some ''200,101'')) (Num 101)"
  by code_simp

lemma buildReq_example:
  "truthy (GET_URL e) \<Longrightarrow> \<exists>u init. buildReq plainHost (inbound m) e = Some (u, init)"
  using buildReq_Some_iff [of plainHost "inbound m" e] by simp

lemma truthy_config: "truthy (GET_URL (config (Some ''up.example'')))"
  "truthy (GET_URL ((config (Some ''up.example''))\<lparr>NORMAL_STATUS_CODES := c\<rparr>))"
  "truthy (GET_URL ((config (Some ''up.example''))\<lparr>FORCE_DOWNLOAD_TYPES := d\<rparr>))"
  by (simp_all add: config_def)

lemma getDisposition_text_html: "getDisposition (Some ''text/html'') (config h) = ''inline''"
  unfolding config_def by (simp add: getDisposition_def parseMimeList_def Let_def) code_simp

lemma getDisposition_text_html_charset:
  "getDisposition (Some ''text/html; charset=utf-8'') (config h) = ''inline''"
  unfolding config_def by (simp add: getDisposition_def parseMimeList_def Let_def) code_simp

lemma countingFetch_answer: "countingFetch r u init n = (Inr r, Suc n)"
  by (simp add: countingFetch_def)

lemma upstream_fields: "headers (upstream s ct) = [(''content-type'', ct)]"
  "status (upstream s ct) = s" "body (upstream s ct) = Some (Stream 7)"
  by (simp_all add: upstream_def)

lemma upstreamEmpty_fields: "headers (upstreamEmpty s ct) = [(''content-type'', ct)]"
  "status (upstreamEmpty s ct) = s" "body (upstreamEmpty s ct) = None"
  by (simp_all add: upstreamEmpty_def)

lemma headersGet_single: "headersGet [(''content-type'', v)] ''Content-Type'' = Some v"
  by (simp add: headersGet_def lower_content_type)

lemma headersSet_single:
  "headersSet [(''content-type'', v)] ''Content-Type'' v' = [(''content-type'', v')]"
  "headersSet [(''content-type'', v)] ''Content-Disposition'' d
     = [(''content-type'', v), (''content-disposition'', d)]"
  by (simp_all add: headersSet_def lower_content_type lower_content_disposition)

lemma headersGet_pair:
  "headersGet [(''content-type'', v), (''content-disposition'', d)] ''Content-Type'' = Some v"
  by (simp add: headersGet_def lower_content_type)

lemma headersSet_pair:
  "headersSet [(''content-type'', v), (''content-disposition'', d)] ''Content-Type'' v'
     = [(''content-type'', v'), (''content-disposition'', d)]"
  "headersSet [(''content-type'', v), (''content-disposition'', d)] ''Content-Disposition'' d'
     = [(''content-type'', v), (''content-disposition'', d')]"
  by (simp_all add: headersSet_def lower_content_type lower_content_disposition)

lemma getDisposition_charset_rule:
  "getDisposition (Some ''text/plain'')
     ((config (Some ''up.example''))\<lparr>FORCE_DOWNLOAD_TYPES := Some ''charset''\<rparr>) = ''inline''"
  "getDisposition (Some ''text/plain; charset=utf-8'')
     ((config (Some ''up.example''))\<lparr>FORCE_DOWNLOAD_TYPES := Some ''charset''\<rparr>) = ''attachment''"
  unfolding config_def by code_simp+

section \<open>The unconfigured handler\<close>

text \<open>
  Claim C5. When no upstream host is configured (\<^verbatim>\<open>GET_URL\<close> absent or empty), the
  handler returns, for every inbound request, the error page rendered from the fixed
  configuration message, with status 500. The network is never used: the result is the
  same for every \<open>fetch\<close>, and the state of the world is returned as it was.
\<close>

theorem getResponse_unconfigured:
  assumes "\<not> truthy (GET_URL e)"
  shows "(let page = \<lparr>status = 500,
                      headers = [(''content-type'', ''text/html; charset=utf-8'')],
                      body = Some (Html [TEXT_CONFIG_ERROR, ''!'', TEXT_CONFIG_ERROR,
                                         MSG_NO_GET_URL])\<rparr>
          in generateErrorPage 0 (Some MSG_NO_GET_URL) = Inr page
             \<and> getResponse parseHost fetch request e w = (Inr page, w))"
  using assms truthy_MSG_NO_GET_URL
  by (simp add: getResponse_def generateErrorPage_def new_Response_def
      arrayIncludes_nullBodyStatus)

text \<open>With a network that counts its calls, the count is still 0 afterwards.\<close>

theorem getResponse_unconfigured_witness:
  "\<not> truthy (GET_URL (config None))
   \<and> getResponse plainHost (countingFetch (upstream 200 ''text/html'')) (inbound ''GET'')
       (config None) 0
       = (Inr \<lparr>status = 500,
                headers = [(''content-type'', ''text/html; charset=utf-8'')],
                body = Some (Html [TEXT_CONFIG_ERROR, ''!'', TEXT_CONFIG_ERROR,
                                   MSG_NO_GET_URL])\<rparr>, 0)"
  using getResponse_unconfigured
    [of "config None" plainHost "countingFetch (upstream 200 ''text/html'')" "inbound ''GET''" 0]
  by (simp add: config_def Let_def)

section \<open>Request bodies\<close>

text \<open>
  Claim C8. With an upstream host configured, \<^verbatim>\<open>buildReq\<close> (in both source files)
  returns a request whose method is the inbound method and whose body is absent when
  the method is \<^verbatim>\<open>GET\<close> or \<^verbatim>\<open>HEAD\<close>, whatever body the inbound request carried, and
  is the inbound body reference for every other method.
\<close>

theorem buildReq_body:
  assumes "truthy (GET_URL e)"
  shows "\<exists>u init. buildReq parseHost request e = Some (u, init)
           \<and> index_buildReq parseHost request e = Some (u, init)
           \<and> init_method init = req_method request
           \<and> init_body init =
               (if req_method request = ''GET'' \<or> req_method request = ''HEAD''
                then None else req_body request)"
  using assms by (auto simp: index_buildReq_eq buildReq_def Let_def)

theorem buildReq_body_witness:
  "truthy (GET_URL (config (Some ''up.example'')))
   \<and> map_option (init_body \<circ> snd)
         (buildReq plainHost (inbound ''GET'') (config (Some ''up.example''))) = Some None
   \<and> map_option (init_body \<circ> snd)
         (buildReq plainHost (inbound ''HEAD'') (config (Some ''up.example''))) = Some None
   \<and> map_option (init_body \<circ> snd)
         (buildReq plainHost (inbound ''POST'') (config (Some ''up.example''))) = Some (Some 1)
   \<and> map_option (init_body \<circ> snd)
         (index_buildReq plainHost (inbound ''GET'') (config (Some ''up.example''))) = Some None
   \<and> map_option (init_body \<circ> snd)
         (index_buildReq plainHost (inbound ''POST'') (config (Some ''up.example'')))
       = Some (Some 1)"
proof -
  have t: "truthy (GET_URL (config (Some ''up.example'')))" by (simp add: config_def)
  have b: "req_body (inbound m) = Some 1" "req_method (inbound m) = m" for m
    by (simp_all add: inbound_def)
  show ?thesis
    using t buildReq_body [OF t, of plainHost "inbound ''GET''"]
      buildReq_body [OF t, of plainHost "inbound ''HEAD''"]
      buildReq_body [OF t, of plainHost "inbound ''POST''"]
    by (auto simp: b)
qed

section \<open>Responses outside the allow-list\<close>

text \<open>Statuses outside the allow-list, by range.\<close>

lemma getResponse_rejected_in_range:
  assumes "buildReq parseHost request e = Some (u, init)"
    and "fetch u init w = (Inr response, w')"
    and "\<not> arrayIncludes (parseNormalStatusCodes (NORMAL_STATUS_CODES e))
             (Num (status response))"
    and "200 \<le> status response" and "status response \<le> 599"
  shows "getResponse parseHost fetch request e w =
           (Inr (if status response \<in> {204, 205, 304}
                 then \<lparr>status = status response, headers = [], body = None\<rparr>
                 else \<lparr>status = status response,
                       headers = [(''content-type'', ''text/html; charset=utf-8'')],
                       body = Some (Html [TEXT_STATUS @ numberToString (status response),
                                          numberToString (status response),
                                          TEXT_REQUEST_STATUS,
                                          if status response = 404 then MSG_NOT_FOUND
                                          else MSG_UNAVAILABLE])\<rparr>), w')"
proof (cases "status response \<in> {204, 205, 304}")
  case True
  then have "arrayIncludes NULL_BODY_STATUS_CODES (status response)"
    by (auto simp: arrayIncludes_NULL_BODY)
  then show ?thesis
    using getResponse_rejected [where fetch = fetch, OF assms(1-3)] True assms(4,5)
    by (simp add: new_Response_no_body)
next
  case False
  with assms(4) have "\<not> arrayIncludes NULL_BODY_STATUS_CODES (status response)"
    by (auto simp: arrayIncludes_NULL_BODY)
  then show ?thesis
    using getResponse_rejected [where fetch = fetch, OF assms(1-3)] False assms(4,5)
    by (simp add: generateErrorPage_null new_Response_body)
qed

lemma getResponse_rejected_RangeError:
  assumes "buildReq parseHost request e = Some (u, init)"
    and "fetch u init w = (Inr response, w')"
    and "\<not> arrayIncludes (parseNormalStatusCodes (NORMAL_STATUS_CODES e))
             (Num (status response))"
    and "status response < 200 \<or> 599 < status response"
  shows "getResponse parseHost fetch request e w = (Inl RangeError, w')"
  using getResponse_rejected [where fetch = fetch, OF assms(1-3)] assms(4)
  by (simp add: generateErrorPage_null new_Response_RangeError)

text \<open>
  Claim C2. \<^verbatim>\<open>getResponse\<close> of \<^verbatim>\<open>workers.js\<close> on the example inputs, with the default
  allow-list: an upstream 101, which \<^verbatim>\<open>NULL_BODY_STATUS_CODES\<close> lists, gives no response,
  because \<^verbatim>\<open>new Response(null, {status: 101})\<close> throws \<^verbatim>\<open>RangeError\<close>; an upstream 304
  gives the response with status 304, no headers and no body; an upstream 403 gives the
  error page with status 403.
\<close>

theorem getResponse_rejected_101:
  "getResponse plainHost (countingFetch (upstreamEmpty 101 ''text/html'')) (inbound ''GET'')
     (config (Some ''up.example'')) 0
   = (Inl RangeError, 1)
   \<and> getResponse plainHost (countingFetch (upstream 304 ''text/html'')) (inbound ''GET'')
       (config (Some ''up.example'')) 0
     = (Inr \<lparr>status = 304, headers = [], body = None\<rparr>, 1)
   \<and> getResponse plainHost (countingFetch (upstream 403 ''text/html'')) (inbound ''GET'')
       (config (Some ''up.example'')) 0
     = (Inr \<lparr>status = 403,
              headers = [(''content-type'', ''text/html; charset=utf-8'')],
              body = Some (Html [TEXT_STATUS @ ''403'', ''403'', TEXT_REQUEST_STATUS,
                                 MSG_UNAVAILABLE])\<rparr>, 1)"
proof -
  obtain u init where
    b: "buildReq plainHost (inbound ''GET'') (config (Some ''up.example'')) = Some (u, init)"
    using buildReq_example [OF truthy_config(1)] by blast
  have n: "numberToString 403 = ''403''" by code_simp
  have 1: "getResponse plainHost (countingFetch (upstreamEmpty 101 ''text/html''))
             (inbound ''GET'') (config (Some ''up.example'')) 0 = (Inl RangeError, 1)"
    using getResponse_rejected_RangeError
      [where fetch = "countingFetch (upstreamEmpty 101 ''text/html'')",
        OF b countingFetch_answer]
    by (simp add: allowed_config upstreamEmpty_fields)
  have 2: "getResponse plainHost (countingFetch (upstream 304 ''text/html'')) (inbound ''GET'')
       (config (Some ''up.example'')) 0
     = (Inr \<lparr>status = 304, headers = [], body = None\<rparr>, 1)"
    using getResponse_rejected_in_range
      [where fetch = "countingFetch (upstream 304 ''text/html'')", OF b countingFetch_answer]
    by (simp add: allowed_config upstream_fields)
  have 3: "getResponse plainHost (countingFetch (upstream 403 ''text/html'')) (inbound ''GET'')
       (config (Some ''up.example'')) 0
     = (Inr \<lparr>status = 403,
              headers = [(''content-type'', ''text/html; charset=utf-8'')],
              body = Some (Html [TEXT_STATUS @ ''403'', ''403'', TEXT_REQUEST_STATUS,
                                 MSG_UNAVAILABLE])\<rparr>, 1)"
    using getResponse_rejected_in_range
      [where fetch = "countingFetch (upstream 403 ''text/html'')", OF b countingFetch_answer]
    by (simp add: allowed_config upstream_fields n)
  from 1 2 3 show ?thesis by blast
qed

section \<open>The three outcomes\<close>

text \<open>
  For an upstream status from 200 to 599 the response returned is exactly one of the
  pass-through, the bodiless response and the error page, decided by the allow-list and
  the bodiless codes, and it carries a \<^verbatim>\<open>Content-Disposition\<close> header if and only if it
  is the pass-through.
\<close>

lemma getResponse_outcomes_in_range:
  assumes "buildReq parseHost request e = Some (u, init)"
    and "fetch u init w = (Inr (response :: 'b response), w')"
    and "200 \<le> status response" and "status response \<le> 599"
  shows "\<exists>out. getResponse parseHost fetch request e w = (Inr out, w')
           \<and> (let allowed = arrayIncludes (parseNormalStatusCodes (NORMAL_STATUS_CODES e))
                               (Num (status response));
                   nullBody = (status response \<in> {204, 205, 304});
                   passThrough =
                     (allowed
                      \<and> status out = status response
                      \<and> body out = (if nullBody then None else body response)
                      \<and> (\<forall>name. toLowerCase name \<noteq> ''content-type''
                                   \<and> toLowerCase name \<noteq> ''content-disposition''
                             \<longrightarrow> headersGet (headers out) name
                                   = headersGet (headers response) name));
                   bodiless = (out = \<lparr>status = status response, headers = [], body = None\<rparr>);
                   errorPage = (generateErrorPage (status response) None = Inr out);
                   disposition = headersGet (headers out) ''Content-Disposition''
               in (passThrough \<or> bodiless \<or> errorPage)
                  \<and> \<not> (passThrough \<and> bodiless)
                  \<and> \<not> (passThrough \<and> errorPage)
                  \<and> \<not> (bodiless \<and> errorPage)
                  \<and> (passThrough \<longleftrightarrow> allowed)
                  \<and> (bodiless \<longleftrightarrow> \<not> allowed \<and> nullBody)
                  \<and> (errorPage \<longleftrightarrow> \<not> allowed \<and> \<not> nullBody)
                  \<and> (disposition \<noteq> None \<longleftrightarrow> passThrough)
                  \<and> (passThrough \<longrightarrow>
                        disposition = Some ''inline'' \<or> disposition = Some ''attachment''))"
proof (cases "arrayIncludes (parseNormalStatusCodes (NORMAL_STATUS_CODES e))
                (Num (status response))")
  case True
  define ct where "ct = headersGet (headers response) ''Content-Type''"
  define h where "h =
    headersSet
      (if truthy ct \<and> startsWith (the ct) ''text/''
       then headersSet (headers response) ''Content-Type'' (the ct @ ''; charset=utf-8'')
       else headers response)
      ''Content-Disposition'' (getDisposition ct e)"
  define out where "out =
    \<lparr>status = status response, headers = h,
     body = (if arrayIncludes NULL_BODY_STATUS_CODES (status response)
             then None else body response)\<rparr>"
  have r: "getResponse parseHost fetch request e w = (Inr out, w')"
    using getResponse_allowed [where fetch = fetch, OF assms(1,2) True assms(3,4)]
    by (simp add: out_def h_def ct_def)
  have d: "headersGet (headers out) ''Content-Disposition'' = Some (getDisposition ct e)"
    by (simp add: out_def h_def headersGet_headersSet)
  have p: "status out = status response"
    "body out = (if status response \<in> {204, 205, 304} then None else body response)"
    using assms(3) by (auto simp: out_def arrayIncludes_NULL_BODY)
  have k: "headersGet (headers out) name = headersGet (headers response) name"
    if "toLowerCase name \<noteq> ''content-type''" "toLowerCase name \<noteq> ''content-disposition''"
    for name
    using that
    by (simp add: out_def h_def headersGet_headersSet lower_content_type
        lower_content_disposition)
  have nb: "out \<noteq> \<lparr>status = status response, headers = [], body = None\<rparr>"
  proof
    assume "out = \<lparr>status = status response, headers = [], body = None\<rparr>"
    then have "headersGet (headers out) ''Content-Disposition'' = None"
      by (simp add: headersGet_def)
    with d show False by simp
  qed
  have ne: "generateErrorPage (status response) None \<noteq> Inr out"
  proof
    assume "generateErrorPage (status response) None = Inr out"
    then have "headers out = [(''content-type'', ''text/html; charset=utf-8'')]"
      unfolding generateErrorPage_null by (auto dest: new_Response_Inr)
    then have "headersGet (headers out) ''Content-Disposition'' = None"
      by (simp add: headersGet_def lower_content_disposition)
    with d show False by simp
  qed
  show ?thesis
    using r d p k nb ne True getDisposition_token [of ct e]
    by (intro exI [of _ out]) (simp add: Let_def)
next
  case False
  define out :: "'b response" where "out =
    (if status response \<in> {204, 205, 304}
     then \<lparr>status = status response, headers = [], body = None\<rparr>
     else \<lparr>status = status response,
           headers = [(''content-type'', ''text/html; charset=utf-8'')],
           body = Some (Html [TEXT_STATUS @ numberToString (status response),
                              numberToString (status response),
                              TEXT_REQUEST_STATUS,
                              if status response = 404 then MSG_NOT_FOUND
                              else MSG_UNAVAILABLE])\<rparr>)"
  have r: "getResponse parseHost fetch request e w = (Inr out, w')"
    using getResponse_rejected_in_range [where fetch = fetch, OF assms(1,2) False assms(3,4)]
    by (simp add: out_def)
  have d: "headersGet (headers out) ''Content-Disposition'' = None"
    by (simp add: out_def headersGet_def lower_content_disposition)
  have g: "(generateErrorPage (status response) None = Inr out)
             \<longleftrightarrow> status response \<notin> {204, 205, 304}"
    using assms(3,4)
    by (auto simp: out_def generateErrorPage_null new_Response_body new_Response_TypeError)
  have c: "(out = \<lparr>status = status response, headers = [], body = None\<rparr>)
             \<longleftrightarrow> status response \<in> {204, 205, 304}"
    by (auto simp: out_def)
  show ?thesis
    using r d g c False
    by (intro exI [of _ out]) (auto simp: Let_def)
qed

text \<open>
  Claim C9. \<^verbatim>\<open>getResponse\<close> of \<^verbatim>\<open>workers.js\<close> on the example inputs: for an upstream
  101 none of the three outcomes is returned, whether 101 is outside the allow-list
  (the bodiless response cannot be constructed) or inside it (the pass-through cannot
  be constructed); both times the constructor throws \<^verbatim>\<open>RangeError\<close>. An upstream 200
  is passed through with its \<^verbatim>\<open>Content-Disposition\<close>.
\<close>

theorem getResponse_no_outcome_101:
  "getResponse plainHost (countingFetch (upstreamEmpty 101 ''text/plain'')) (inbound ''POST'')
     (config (Some ''up.example'')) 0
   = (Inl RangeError, 1)
   \<and> getResponse plainHost (countingFetch (upstreamEmpty 101 ''text/plain'')) (inbound ''POST'')
       ((config (Some ''up.example''))\<lparr>NORMAL_STATUS_CODES := Some ''200,101''\<rparr>) 0
     = (Inl RangeError, 1)
   \<and> getResponse plainHost (countingFetch (upstream 200 ''text/html'')) (inbound ''POST'')
       (config (Some ''up.example'')) 0
     = (Inr \<lparr>status = 200,
              headers = [(''content-type'', ''text/html; charset=utf-8''),
                         (''content-disposition'', ''inline'')],
              body = Some (Stream 7)\<rparr>, 1)"
proof -
  obtain u init where
    b: "buildReq plainHost (inbound ''POST'') (config (Some ''up.example'')) = Some (u, init)"
    using buildReq_example [OF truthy_config(1)] by blast
  obtain u' init' where
    b': "buildReq plainHost (inbound ''POST'')
           ((config (Some ''up.example''))\<lparr>NORMAL_STATUS_CODES := Some ''200,101''\<rparr>)
         = Some (u', init')"
    using buildReq_example [OF truthy_config(2)] by blast
  have 1: "getResponse plainHost (countingFetch (upstreamEmpty 101 ''text/plain''))
             (inbound ''POST'') (config (Some ''up.example'')) 0 = (Inl RangeError, 1)"
    using getResponse_rejected_RangeError
      [where fetch = "countingFetch (upstreamEmpty 101 ''text/plain'')",
        OF b countingFetch_answer]
    by (simp add: allowed_config upstreamEmpty_fields)
  have 2: "getResponse plainHost (countingFetch (upstreamEmpty 101 ''text/plain''))
             (inbound ''POST'')
             ((config (Some ''up.example''))\<lparr>NORMAL_STATUS_CODES := Some ''200,101''\<rparr>) 0
           = (Inl RangeError, 1)"
    using getResponse_allowed_RangeError
      [where fetch = "countingFetch (upstreamEmpty 101 ''text/plain'')",
        OF b' countingFetch_answer]
    by (simp add: allowed_200_101 upstreamEmpty_fields)
  have n: "\<not> arrayIncludes NULL_BODY_STATUS_CODES 200"
    by (simp add: arrayIncludes_NULL_BODY)
  have 3: "getResponse plainHost (countingFetch (upstream 200 ''text/html'')) (inbound ''POST'')
       (config (Some ''up.example'')) 0
     = (Inr \<lparr>status = 200,
              headers = [(''content-type'', ''text/html; charset=utf-8''),
                         (''content-disposition'', ''inline'')],
              body = Some (Stream 7)\<rparr>, 1)"
    using getResponse_allowed
      [where fetch = "countingFetch (upstream 200 ''text/html'')", OF b countingFetch_answer] n
    by (simp add: allowed_config upstream_fields headersGet_single headersSet_single
        startsWith_def getDisposition_text_html)
  from 1 2 3 show ?thesis by blast
qed

section \<open>The two source files\<close>

text \<open>A response that either handler returns with a body never has a null body
  status: the constructor refuses it.\<close>

lemma getResponse_body_status:
  assumes "getResponse parseHost fetch request e w = (Inr out, w')"
    and "body out \<noteq> None"
  shows "status out \<notin> {101, 103, 204, 205, 304}"
proof (cases "truthy (GET_URL e)")
  case False
  then show ?thesis
    using assms(1)
    by (auto simp: getResponse_def generateErrorPage_def Let_def dest!: new_Response_Inr
        split: if_splits)
next
  case True
  then obtain u init where b: "buildReq parseHost request e = Some (u, init)"
    using buildReq_Some_iff [of parseHost request e] by auto
  obtain r w'' where f: "fetch u init w = (r, w'')" by (cases "fetch u init w")
  show ?thesis
  proof (cases r)
    case (Inl err)
    with assms(1) True b f show ?thesis by (simp add: getResponse_def)
  next
    case (Inr response)
    show ?thesis
    proof (cases "arrayIncludes (parseNormalStatusCodes (NORMAL_STATUS_CODES e))
                    (Num (status response))")
      case False
      have "(if arrayIncludes NULL_BODY_STATUS_CODES (status response)
             then new_Response None (status response) []
             else generateErrorPage (status response) None) = Inr out"
        using getResponse_rejected [where fetch = fetch, OF b f [unfolded Inr] False] assms(1)
        by simp
      then have "\<exists>b'. new_Response b' (status response)
                   (if b' = None then [] else [(''content-type'', ''text/html; charset=utf-8'')])
                 = Inr out"
        by (auto simp: generateErrorPage_null split: if_splits)
      then obtain b' h' where "new_Response b' (status response) h' = Inr out" by blast
      from new_Response_Inr [OF this] assms(2) show ?thesis by auto
    next
      case allowed: True
      show ?thesis
      proof (cases "200 \<le> status response \<and> status response \<le> 599")
        case True
        then show ?thesis
          using getResponse_allowed [where fetch = fetch, OF b f [unfolded Inr] allowed]
            assms
          by (auto simp: arrayIncludes_NULL_BODY split: if_splits)
      next
        case False
        then show ?thesis
          using getResponse_allowed_RangeError
            [where fetch = fetch, OF b f [unfolded Inr] allowed] assms(1)
          by auto
      qed
    qed
  qed
qed

lemma index_getResponse_body_status:
  assumes "index_getResponse parseHost fetch request e w = (Inr out, w')"
    and "body out \<noteq> None"
  shows "status out \<notin> {101, 103, 204, 205, 304}"
proof (cases "truthy (GET_URL e)")
  case False
  then show ?thesis
    using assms(1)
    by (auto simp: index_getResponse_def index_generateErrorPage_def Let_def
        dest!: new_Response_Inr split: if_splits)
next
  case True
  then obtain u init where b: "buildReq parseHost request e = Some (u, init)"
    using buildReq_Some_iff [of parseHost request e] by auto
  obtain r w'' where f: "fetch u init w = (r, w'')" by (cases "fetch u init w")
  show ?thesis
  proof (cases r)
    case (Inl err)
    with assms(1) True b f show ?thesis
      by (simp add: index_getResponse_def index_buildReq_eq)
  next
    case (Inr response)
    show ?thesis
    proof (cases "arrayIncludes (parseNormalStatusCodes (NORMAL_STATUS_CODES e))
                    (Num (status response))")
      case False
      have "index_generateErrorPage (status response) None = Inr out"
        using index_getResponse_rejected [where fetch = fetch, OF b f [unfolded Inr] False]
          assms(1)
        by simp
      then obtain b' h' where "new_Response b' (status response) h' = Inr out"
        unfolding index_generateErrorPage_null by blast
      from new_Response_Inr [OF this] assms(2) show ?thesis by auto
    next
      case allowed: True
      show ?thesis
      proof (cases "new_Response (body response) (status response) (headers response)")
        case (Inl err)
        then show ?thesis
          using index_getResponse_allowed [where fetch = fetch, OF b f [unfolded Inr] allowed]
            assms(1)
          by auto
      next
        case r: (Inr r')
        then obtain out' where
          o: "index_getResponse parseHost fetch request e w = (Inr out', w'')"
            "status out' = status r'" "body out' = body r'"
          using index_getResponse_allowed [where fetch = fetch, OF b f [unfolded Inr] allowed]
          by blast
        with assms have "out' = out" by simp
        with o assms(2) new_Response_Inr [OF r] show ?thesis by auto
      qed
    qed
  qed
qed

text \<open>
  Claim C6, as the code has it. The handlers of \<^verbatim>\<open>workers.js\<close> and \<^verbatim>\<open>src/index.js\<close>
  differ on bodiless statuses: for every upstream response with status 204, 205 or 304
  outside the allow-list, \<^verbatim>\<open>workers.js\<close> returns a response with that status, no
  headers and no body, while \<^verbatim>\<open>src/index.js\<close> returns no response, because building
  its error page with that status throws \<^verbatim>\<open>TypeError\<close>. Neither handler ever returns
  a response that carries a body alongside a bodiless status.
\<close>

theorem variants_differ_on_null_body_status:
  "(buildReq parseHost request e = Some (u, init)
      \<and> fetch u init w = (Inr response, w')
      \<and> status response \<in> {204, 205, 304}
      \<and> \<not> arrayIncludes (parseNormalStatusCodes (NORMAL_STATUS_CODES e))
             (Num (status response))
    \<longrightarrow> getResponse parseHost fetch request e w
          = (Inr \<lparr>status = status response, headers = [], body = None\<rparr>, w')
        \<and> index_getResponse parseHost fetch request e w = (Inl TypeError, w'))
   \<and> (getResponse parseHost fetch request e w = (Inr out, v) \<and> body out \<noteq> None
        \<longrightarrow> status out \<notin> {101, 204, 205, 304})
   \<and> (index_getResponse parseHost fetch request e w = (Inr out, v) \<and> body out \<noteq> None
        \<longrightarrow> status out \<notin> {101, 204, 205, 304})"
proof -
  have 1: "getResponse parseHost fetch request e w
          = (Inr \<lparr>status = status response, headers = [], body = None\<rparr>, w')
        \<and> index_getResponse parseHost fetch request e w = (Inl TypeError, w')"
    if b: "buildReq parseHost request e = Some (u, init)"
      and f: "fetch u init w = (Inr response, w')"
      and s: "status response \<in> {204, 205, 304}"
      and n: "\<not> arrayIncludes (parseNormalStatusCodes (NORMAL_STATUS_CODES e))
             (Num (status response))"
  proof -
    from s have r: "200 \<le> status response" "status response \<le> 599" by auto
    have "getResponse parseHost fetch request e w
          = (Inr \<lparr>status = status response, headers = [], body = None\<rparr>, w')"
      using getResponse_rejected_in_range [where fetch = fetch, OF b f n r] s by simp
    moreover have "index_getResponse parseHost fetch request e w = (Inl TypeError, w')"
      using index_getResponse_rejected [where fetch = fetch, OF b f n] s
      by (simp add: index_generateErrorPage_null new_Response_TypeError)
    ultimately show ?thesis by simp
  qed
  show ?thesis
    using 1 getResponse_body_status [of parseHost fetch request e w out v]
      index_getResponse_body_status [of parseHost fetch request e w out v]
    by blast
qed

theorem variants_differ_on_null_body_status_witness:
  "buildReq plainHost (inbound ''GET'') (config (Some ''up.example''))
     = Some (''https://up.example/a.txt?x=1'',
             \<lparr>init_method = ''GET'',
              init_headers = [(''accept'', ''*/*''), (''host'', ''up.example'')],
              init_redirect = ''follow'', init_body = None\<rparr>)
   \<and> status (upstreamEmpty 205 ''text/html'') \<in> {204, 205, 304}
   \<and> \<not> arrayIncludes
         (parseNormalStatusCodes (NORMAL_STATUS_CODES (config (Some ''up.example''))))
         (Num (status (upstreamEmpty 205 ''text/html'')))
   \<and> getResponse plainHost (countingFetch (upstreamEmpty 205 ''text/html'')) (inbound ''GET'')
         (config (Some ''up.example'')) 0
       = (Inr \<lparr>status = 205, headers = [], body = None\<rparr>, 1)
   \<and> index_getResponse plainHost (countingFetch (upstreamEmpty 205 ''text/html''))
         (inbound ''GET'') (config (Some ''up.example'')) 0
       = (Inl TypeError, 1)"
proof -
  have b: "buildReq plainHost (inbound ''GET'') (config (Some ''up.example''))
     = Some (''https://up.example/a.txt?x=1'',
             \<lparr>init_method = ''GET'',
              init_headers = [(''accept'', ''*/*''), (''host'', ''up.example'')],
              init_redirect = ''follow'', init_body = None\<rparr>)"
    by code_simp
  have s: "status (upstreamEmpty 205 ''text/html'') \<in> {204, 205, 304}"
    by (simp add: upstreamEmpty_fields)
  have n: "\<not> arrayIncludes
         (parseNormalStatusCodes (NORMAL_STATUS_CODES (config (Some ''up.example''))))
         (Num (status (upstreamEmpty 205 ''text/html'')))"
    by (simp add: allowed_config upstreamEmpty_fields)
  show ?thesis
    using b s n variants_differ_on_null_body_status
      [of plainHost "inbound ''GET''" "config (Some ''up.example'')"
        "''https://up.example/a.txt?x=1''"
        "\<lparr>init_method = ''GET'',
          init_headers = [(''accept'', ''*/*''), (''host'', ''up.example'')],
          init_redirect = ''follow'', init_body = None\<rparr>"
        "countingFetch (upstreamEmpty 205 ''text/html'')" 0
        "upstreamEmpty 205 ''text/html''" 1]
    by (simp add: countingFetch_answer upstreamEmpty_fields)
qed

text \<open>
  \<^verbatim>\<open>src/index.js\<close> on the statuses the claim names: an upstream 304 outside the
  allow-list and an allow-listed upstream 204 with a body both end in \<^verbatim>\<open>TypeError\<close>,
  and an allow-listed upstream 204 without a body is returned without a body.
\<close>

theorem index_getResponse_null_body_status:
  "index_getResponse plainHost (countingFetch (upstream 304 ''text/html'')) (inbound ''GET'')
     (config (Some ''up.example'')) 0
   = (Inl TypeError, 1)
   \<and> index_getResponse plainHost (countingFetch (upstream 204 ''text/html'')) (inbound ''GET'')
       ((config (Some ''up.example''))\<lparr>NORMAL_STATUS_CODES := Some ''200,204''\<rparr>) 0
     = (Inl TypeError, 1)
   \<and> index_getResponse plainHost (countingFetch (upstreamEmpty 204 ''text/html''))
       (inbound ''GET'')
       ((config (Some ''up.example''))\<lparr>NORMAL_STATUS_CODES := Some ''200,204''\<rparr>) 0
     = (Inr \<lparr>status = 204,
              headers = [(''content-type'', ''text/html; charset=utf-8''),
                         (''content-disposition'', ''inline'')],
              body = None\<rparr>, 1)"
  unfolding config_def by code_simp

section \<open>The disposition decision\<close>

lemma some_iff: "some p xs \<longleftrightarrow> (\<exists>x\<in>set xs. p x)"
  by (induction xs) auto

lemma parseMimeList_nonempty: "t \<in> set (parseMimeList m) \<Longrightarrow> t \<noteq> []"
  by (simp add: parseMimeList_def split: if_splits)

lemma no_entry_in_empty: "some (strIncludes []) (parseMimeList m) = False"
  using parseMimeList_nonempty by (auto simp: some_iff)

lemma not_in_empty: "strIncludes [] ''application/pdf'' = False"
  "strIncludes [] ''application/json'' = False" "strIncludes [] ''application/xml'' = False"
  "strIncludes [] ''application/javascript'' = False" "strIncludes [] ''text/javascript'' = False"
  by simp_all

lemma lower_image_png: "toLowerCase ''image/png'' = ''image/png''"
  by code_simp

text \<open>
  Claim C3. \<^verbatim>\<open>getDisposition\<close> returns \<^verbatim>\<open>attachment\<close> for an absent content-type. For a
  content-type \<open>contentType\<close>, with \<open>c\<close> its lower-cased form, it returns \<^verbatim>\<open>inline\<close> if
  and only if some entry of the force-inline list is contained in \<open>c\<close>, or no entry of
  the force-download list is contained in \<open>c\<close> and \<open>c\<close> starts with \<^verbatim>\<open>image/\<close> or
  \<^verbatim>\<open>text/\<close> or contains one of \<^verbatim>\<open>application/pdf\<close>, \<^verbatim>\<open>application/json\<close>,
  \<^verbatim>\<open>application/xml\<close>, \<^verbatim>\<open>application/javascript\<close>, \<^verbatim>\<open>text/javascript\<close>; in every other
  case it returns \<^verbatim>\<open>attachment\<close>. When both lists match, the result is \<^verbatim>\<open>inline\<close>; for
  \<^verbatim>\<open>image/png\<close>, a force-download match (with no force-inline match) gives
  \<^verbatim>\<open>attachment\<close>. The lists are the ones \<^verbatim>\<open>parseMimeList\<close> reads from the environment.
\<close>

theorem getDisposition_decision:
  "getDisposition None e = ''attachment''
   \<and> (let c = toLowerCase contentType;
           forceInline = some (\<lambda>t. strIncludes c t) (parseMimeList (FORCE_INLINE_TYPES e));
           forceDownload = some (\<lambda>t. strIncludes c t) (parseMimeList (FORCE_DOWNLOAD_TYPES e));
           builtIn = (startsWith c ''image/'' \<or> startsWith c ''text/''
                      \<or> strIncludes c ''application/pdf''
                      \<or> strIncludes c ''application/json''
                      \<or> strIncludes c ''application/xml''
                      \<or> strIncludes c ''application/javascript''
                      \<or> strIncludes c ''text/javascript'')
       in (getDisposition (Some contentType) e = ''inline''
             \<longleftrightarrow> forceInline \<or> (\<not> forceDownload \<and> builtIn))
          \<and> (getDisposition (Some contentType) e \<noteq> ''inline''
             \<longrightarrow> getDisposition (Some contentType) e = ''attachment'')
          \<and> (forceInline \<and> forceDownload \<longrightarrow> getDisposition (Some contentType) e = ''inline''))
   \<and> (some (\<lambda>t. strIncludes ''image/png'' t) (parseMimeList (FORCE_DOWNLOAD_TYPES e))
        \<and> \<not> some (\<lambda>t. strIncludes ''image/png'' t) (parseMimeList (FORCE_INLINE_TYPES e))
      \<longrightarrow> getDisposition (Some ''image/png'') e = ''attachment'')"
proof -
  have 1: "getDisposition None e = ''attachment''"
    by (simp add: getDisposition_def)
  have 2: "getDisposition (Some []) e = ''attachment''"
    by (simp add: getDisposition_def)
  have 3: "getDisposition (Some ct) e =
      (let c = toLowerCase ct
       in if some (\<lambda>t. strIncludes c t) (parseMimeList (FORCE_INLINE_TYPES e)) then ''inline''
          else if some (\<lambda>t. strIncludes c t) (parseMimeList (FORCE_DOWNLOAD_TYPES e))
            then ''attachment''
          else if startsWith c ''image/'' \<or> startsWith c ''text/''
                      \<or> strIncludes c ''application/pdf''
                      \<or> strIncludes c ''application/json''
                      \<or> strIncludes c ''application/xml''
                      \<or> strIncludes c ''application/javascript''
                      \<or> strIncludes c ''text/javascript'' then ''inline'' else ''attachment'')"
    if "ct \<noteq> []" for ct
    using that by (simp add: getDisposition_def Let_def otherPreview_def)
  have 4: "getDisposition (Some ''image/png'') e = ''attachment''"
    if "some (\<lambda>t. strIncludes ''image/png'' t) (parseMimeList (FORCE_DOWNLOAD_TYPES e))"
      "\<not> some (\<lambda>t. strIncludes ''image/png'' t) (parseMimeList (FORCE_INLINE_TYPES e))"
    using that 3 [of "''image/png''"]
    by (simp add: lower_image_png Let_def del: strIncludes.simps)
  show ?thesis
  proof (cases "contentType = []")
    case True
    have "toLowerCase contentType = []"
      using True by (simp add: toLowerCase_def)
    then show ?thesis
      using True 1 2 4
      by (simp add: Let_def startsWith_def no_entry_in_empty not_in_empty del: strIncludes.simps)
  next
    case False
    show ?thesis
      using 1 4 3 [OF False] by (simp add: Let_def del: strIncludes.simps)
  qed
qed

theorem getDisposition_decision_witness:
  "some (strIncludes ''image/png'')
     (parseMimeList (FORCE_DOWNLOAD_TYPES ((config None)\<lparr>FORCE_DOWNLOAD_TYPES := Some ''image/''\<rparr>)))
   \<and> \<not> some (strIncludes ''image/png'')
       (parseMimeList (FORCE_INLINE_TYPES ((config None)\<lparr>FORCE_DOWNLOAD_TYPES := Some ''image/''\<rparr>)))
   \<and> getDisposition (Some ''image/png'') ((config None)\<lparr>FORCE_DOWNLOAD_TYPES := Some ''image/''\<rparr>)
       = ''attachment''
   \<and> getDisposition (Some ''image/png'')
       ((config None)\<lparr>FORCE_INLINE_TYPES := Some ''image/'', FORCE_DOWNLOAD_TYPES := Some ''image/''\<rparr>)
       = ''inline''
   \<and> getDisposition (Some ''image/png'') (config None) = ''inline''
   \<and> getDisposition (Some ''application/octet-stream'') (config None) = ''attachment''"
proof -
  have a: "some (strIncludes ''image/png'')
     (parseMimeList (FORCE_DOWNLOAD_TYPES ((config None)\<lparr>FORCE_DOWNLOAD_TYPES := Some ''image/''\<rparr>)))"
    unfolding config_def by code_simp
  have b: "\<not> some (strIncludes ''image/png'')
       (parseMimeList (FORCE_INLINE_TYPES ((config None)\<lparr>FORCE_DOWNLOAD_TYPES := Some ''image/''\<rparr>)))"
    unfolding config_def by code_simp
  have c: "getDisposition (Some ''image/png'')
       ((config None)\<lparr>FORCE_INLINE_TYPES := Some ''image/'', FORCE_DOWNLOAD_TYPES := Some ''image/''\<rparr>)
       = ''inline''"
    unfolding config_def by code_simp
  have d: "getDisposition (Some ''image/png'') (config None) = ''inline''"
    unfolding config_def by code_simp
  have e: "getDisposition (Some ''application/octet-stream'') (config None) = ''attachment''"
    unfolding config_def by code_simp
  have "some (strIncludes ''image/png'')
          (parseMimeList (FORCE_DOWNLOAD_TYPES ((config None)\<lparr>FORCE_DOWNLOAD_TYPES := Some ''image/''\<rparr>)))
        \<and> \<not> some (strIncludes ''image/png'')
          (parseMimeList (FORCE_INLINE_TYPES ((config None)\<lparr>FORCE_DOWNLOAD_TYPES := Some ''image/''\<rparr>)))
        \<longrightarrow> getDisposition (Some ''image/png'')
              ((config None)\<lparr>FORCE_DOWNLOAD_TYPES := Some ''image/''\<rparr>) = ''attachment''"
    using getDisposition_decision
      [of "(config None)\<lparr>FORCE_DOWNLOAD_TYPES := Some ''image/''\<rparr>" "''image/png''"]
    by (rule conjunct2 [THEN conjunct2])
  with a b c d e show ?thesis by blast
qed

section \<open>Charset and disposition\<close>

text \<open>
  Claim C4. \<^verbatim>\<open>getResponse\<close> of \<^verbatim>\<open>workers.js\<close> on the example inputs: an upstream
  \<^verbatim>\<open>Content-Type\<close> that already has a charset parameter gets a second one, and so does
  the result of a first pass over \<^verbatim>\<open>text/html\<close> when it is passed through again.
\<close>

theorem getResponse_charset_duplicated:
  "getResponse plainHost (countingFetch (upstream 200 ''text/html; charset=utf-8''))
     (inbound ''GET'') (config (Some ''up.example'')) 0
   = (Inr \<lparr>status = 200,
            headers = [(''content-type'', ''text/html; charset=utf-8; charset=utf-8''),
                       (''content-disposition'', ''inline'')],
            body = Some (Stream 7)\<rparr>, 1)
   \<and> getResponse plainHost (countingFetch (upstream 200 ''text/html'')) (inbound ''GET'')
       (config (Some ''up.example'')) 0
     = (Inr \<lparr>status = 200,
              headers = [(''content-type'', ''text/html; charset=utf-8''),
                         (''content-disposition'', ''inline'')],
              body = Some (Stream 7)\<rparr>, 1)
   \<and> getResponse plainHost
         (countingFetch \<lparr>status = 200,
                          headers = [(''content-type'', ''text/html; charset=utf-8''),
                                     (''content-disposition'', ''inline'')],
                          body = Some (Stream 7)\<rparr>)
         (inbound ''GET'') (config (Some ''up.example'')) 0
     = (Inr \<lparr>status = 200,
              headers = [(''content-type'', ''text/html; charset=utf-8; charset=utf-8''),
                         (''content-disposition'', ''inline'')],
              body = Some (Stream 7)\<rparr>, 1)"
proof -
  obtain u init where
    b: "buildReq plainHost (inbound ''GET'') (config (Some ''up.example'')) = Some (u, init)"
    using buildReq_example [OF truthy_config(1)] by blast
  have n: "\<not> arrayIncludes NULL_BODY_STATUS_CODES 200"
    by (simp add: arrayIncludes_NULL_BODY)
  have 1: "getResponse plainHost (countingFetch (upstream 200 ''text/html; charset=utf-8''))
     (inbound ''GET'') (config (Some ''up.example'')) 0
   = (Inr \<lparr>status = 200,
            headers = [(''content-type'', ''text/html; charset=utf-8; charset=utf-8''),
                       (''content-disposition'', ''inline'')],
            body = Some (Stream 7)\<rparr>, 1)"
    using getResponse_allowed
      [where fetch = "countingFetch (upstream 200 ''text/html; charset=utf-8'')",
        OF b countingFetch_answer] n
    by (simp add: allowed_config upstream_fields headersGet_single headersSet_single
        startsWith_def getDisposition_text_html_charset)
  have 2: "getResponse plainHost (countingFetch (upstream 200 ''text/html'')) (inbound ''GET'')
       (config (Some ''up.example'')) 0
     = (Inr \<lparr>status = 200,
              headers = [(''content-type'', ''text/html; charset=utf-8''),
                         (''content-disposition'', ''inline'')],
              body = Some (Stream 7)\<rparr>, 1)"
    using getResponse_allowed
      [where fetch = "countingFetch (upstream 200 ''text/html'')", OF b countingFetch_answer] n
    by (simp add: allowed_config upstream_fields headersGet_single headersSet_single
        startsWith_def getDisposition_text_html)
  have 3: "getResponse plainHost
         (countingFetch \<lparr>status = 200,
                          headers = [(''content-type'', ''text/html; charset=utf-8''),
                                     (''content-disposition'', ''inline'')],
                          body = Some (Stream 7)\<rparr>)
         (inbound ''GET'') (config (Some ''up.example'')) 0
     = (Inr \<lparr>status = 200,
              headers = [(''content-type'', ''text/html; charset=utf-8; charset=utf-8''),
                         (''content-disposition'', ''inline'')],
              body = Some (Stream 7)\<rparr>, 1)"
    using getResponse_allowed
      [where fetch = "countingFetch \<lparr>status = 200,
                          headers = [(''content-type'', ''text/html; charset=utf-8''),
                                     (''content-disposition'', ''inline'')],
                          body = Some (Stream 7)\<rparr>",
        OF b countingFetch_answer] n
    by (simp add: allowed_config headersGet_pair headersSet_pair startsWith_def
        getDisposition_text_html_charset)
  from 1 2 3 show ?thesis by blast
qed

text \<open>
  Claim C7, as the code has it. For every allow-listed upstream response with a status
  from 200 to 599, the \<^verbatim>\<open>Content-Disposition\<close> header of the outbound response is the
  value of \<^verbatim>\<open>getDisposition\<close> on the \<^verbatim>\<open>Content-Type\<close> header as the upstream sent it
  (read before the charset is appended), and that value is the bare token \<^verbatim>\<open>inline\<close>
  or \<^verbatim>\<open>attachment\<close>; the outbound \<^verbatim>\<open>Content-Type\<close> is the upstream value with
  \<^verbatim>\<open>; charset=utf-8\<close> appended when it starts with \<^verbatim>\<open>text/\<close>.
\<close>

theorem getResponse_disposition_source:
  assumes "buildReq parseHost request e = Some (u, init)"
    and "fetch u init w = (Inr response, w')"
    and "arrayIncludes (parseNormalStatusCodes (NORMAL_STATUS_CODES e)) (Num (status response))"
    and "200 \<le> status response" and "status response \<le> 599"
  shows "\<exists>out. getResponse parseHost fetch request e w = (Inr out, w')
           \<and> (let contentType = headersGet (headers response) ''Content-Type''
               in headersGet (headers out) ''Content-Type''
                    = (if truthy contentType \<and> startsWith (the contentType) ''text/''
                       then Some (the contentType @ ''; charset=utf-8'') else contentType)
                  \<and> headersGet (headers out) ''Content-Disposition''
                      = Some (getDisposition contentType e)
                  \<and> (getDisposition contentType e = ''inline''
                      \<or> getDisposition contentType e = ''attachment''))"
  using getResponse_allowed [where fetch = fetch, OF assms]
    getDisposition_token [of "headersGet (headers response) ''Content-Type''" e]
  by (auto simp: Let_def headersGet_headersSet lower_content_type lower_content_disposition)

theorem getResponse_disposition_source_witness:
  "\<exists>out. getResponse plainHost (countingFetch (upstream 200 ''text/plain'')) (inbound ''GET'')
            ((config (Some ''up.example''))\<lparr>FORCE_DOWNLOAD_TYPES := Some ''charset''\<rparr>) 0
            = (Inr out, 1)
         \<and> headersGet (headers out) ''Content-Type'' = Some ''text/plain; charset=utf-8''
         \<and> headersGet (headers out) ''Content-Disposition'' = Some ''inline''"
proof -
  obtain u init where b: "buildReq plainHost (inbound ''GET'')
      ((config (Some ''up.example''))\<lparr>FORCE_DOWNLOAD_TYPES := Some ''charset''\<rparr>) = Some (u, init)"
    using buildReq_example [OF truthy_config(3)] by blast
  have a: "arrayIncludes (parseNormalStatusCodes (NORMAL_STATUS_CODES
      ((config (Some ''up.example''))\<lparr>FORCE_DOWNLOAD_TYPES := Some ''charset''\<rparr>)))
      (Num (status (upstream 200 ''text/plain'')))"
    by (simp add: config_def parseNormalStatusCodes_absent upstream_fields)
  have r: "200 \<le> status (upstream 200 ''text/plain'')" "status (upstream 200 ''text/plain'') \<le> 599"
    by (simp_all add: upstream_fields)
  show ?thesis
    using getResponse_disposition_source
        [where fetch = "countingFetch (upstream 200 ''text/plain'')",
          OF b countingFetch_answer a r]
    by (simp add: Let_def upstream_fields headersGet_single startsWith_def
        getDisposition_charset_rule)
qed

text \<open>
  The decision is not taken on the augmented value: with \<^verbatim>\<open>FORCE_DOWNLOAD_TYPES\<close> set
  to \<^verbatim>\<open>charset\<close>, an upstream \<^verbatim>\<open>text/plain\<close> leaves as \<^verbatim>\<open>text/plain; charset=utf-8\<close>
  with disposition \<^verbatim>\<open>inline\<close>, while \<^verbatim>\<open>getDisposition\<close> on the augmented value is
  \<^verbatim>\<open>attachment\<close>.
\<close>

theorem disposition_ignores_appended_charset:
  "getResponse plainHost (countingFetch (upstream 200 ''text/plain'')) (inbound ''GET'')
     ((config (Some ''up.example''))\<lparr>FORCE_DOWNLOAD_TYPES := Some ''charset''\<rparr>) 0
   = (Inr \<lparr>status = 200,
            headers = [(''content-type'', ''text/plain; charset=utf-8''),
                       (''content-disposition'', ''inline'')],
            body = Some (Stream 7)\<rparr>, 1)
   \<and> getDisposition (Some ''text/plain; charset=utf-8'')
       ((config (Some ''up.example''))\<lparr>FORCE_DOWNLOAD_TYPES := Some ''charset''\<rparr>)
     = ''attachment''"
proof -
  obtain u init where b: "buildReq plainHost (inbound ''GET'')
      ((config (Some ''up.example''))\<lparr>FORCE_DOWNLOAD_TYPES := Some ''charset''\<rparr>) = Some (u, init)"
    using buildReq_example [OF truthy_config(3)] by blast
  have a: "arrayIncludes (parseNormalStatusCodes (NORMAL_STATUS_CODES
      ((config (Some ''up.example''))\<lparr>FORCE_DOWNLOAD_TYPES := Some ''charset''\<rparr>)))
      (Num (status (upstream 200 ''text/plain'')))"
    by (simp add: config_def parseNormalStatusCodes_absent upstream_fields)
  have r: "200 \<le> status (upstream 200 ''text/plain'')" "status (upstream 200 ''text/plain'') \<le> 599"
    by (simp_all add: upstream_fields)
  have n: "\<not> arrayIncludes NULL_BODY_STATUS_CODES 200"
    by (simp add: arrayIncludes_NULL_BODY)
  show ?thesis
    using getResponse_allowed [where fetch = "countingFetch (upstream 200 ''text/plain'')",
        OF b countingFetch_answer a r] n
    by (simp add: upstream_fields headersGet_single headersSet_single startsWith_def
        getDisposition_charset_rule)
qed

section \<open>The status code list\<close>

lemma tokens_200_301_abc:
  "filter (\<lambda>n. n \<noteq> NaN)
     (map (\<lambda>tok. parseInt (trim tok)) (split CHR '','' ''200, 301 ,abc''))
   = [Num 200, Num 301]"
  by code_simp

lemma digitsValue_301: "digitsValue 10 ''301'' = 301"
  by code_simp

lemma arrayIncludes_iff: "arrayIncludes xs v \<longleftrightarrow> v \<in> set xs"
  by (induction xs) auto

lemma set_parseNormalStatusCodes:
  "truthy raw \<Longrightarrow> set (parseNormalStatusCodes raw)
     = {n. n \<noteq> NaN \<and> (\<exists>tok\<in>set (split CHR '','' (the raw)). parseInt (trim tok) = n)}"
  by (auto simp: parseNormalStatusCodes_def isNaN_def)

lemma toNumber_exact: "\<bar>x\<bar> < 2 ^ 53 \<Longrightarrow> toNumber x = Num x"
proof -
  assume a: "\<bar>x\<bar> < 2 ^ 53"
  have "(2::int) ^ 53 < 2 ^ 1024" by simp
  with a have "\<not> (2::int) ^ 1024 \<le> \<bar>x\<bar>" by linarith
  with a show ?thesis by (auto simp: toNumber_def Let_def)
qed

lemma toNumber_not_NaN: "toNumber x \<noteq> NaN"
  by (simp add: toNumber_def Let_def)

lemma foldl_digits_nonneg:
  "0 \<le> acc \<Longrightarrow> 0 \<le> foldl (\<lambda>acc d. acc * int radix + int (digitValue d)) acc ds"
  by (induction ds arbitrary: acc) auto

lemma digitsValue_nonneg: "0 \<le> digitsValue radix ds"
  by (simp add: digitsValue_def foldl_digits_nonneg)

lemma digit_not_space:
  "isDigit 10 c \<Longrightarrow> \<not> isWhiteSpace c \<and> c \<noteq> CHR ''+'' \<and> c \<noteq> CHR ''-''"
  by (auto simp: isDigit_def digitValue_def isWhiteSpace_def Let_def split: if_splits)

lemma parseInt_decimal_prefix:
  assumes "ds \<noteq> []" and "\<forall>d\<in>set ds. isDigit 10 d"
    and "rest = [] \<or> \<not> isDigit 10 (hd rest)"
    and "\<not> startsWith (ds @ rest) ''0x''" and "\<not> startsWith (ds @ rest) ''0X''"
  shows "parseInt (ds @ rest) = toNumber (digitsValue 10 ds)"
proof -
  from assms(1) obtain d ds' where ds: "ds = d # ds'" by (cases ds) auto
  with assms(2) have d: "isDigit 10 d" by simp
  have 1: "dropWhile isWhiteSpace (ds @ rest) = ds @ rest"
    using ds digit_not_space [OF d] by simp
  have 2: "hd (ds @ rest) \<noteq> CHR ''+''" "hd (ds @ rest) \<noteq> CHR ''-''" "ds @ rest \<noteq> []"
    using ds digit_not_space [OF d] by simp_all
  have 3: "takeWhile (isDigit 10) rest = []"
    using assms(3) by (cases rest) auto
  have 4: "takeWhile (isDigit 10) (ds @ rest) = ds"
    using assms(2) 3 by (simp add: takeWhile_append2)
  show ?thesis
    using 1 2 4 assms(1,4,5) by (simp add: parseInt_def Let_def)
qed

text \<open>
  Claim C1, as the code has it. \<^verbatim>\<open>parseNormalStatusCodes\<close> returns the list with the
  one number 200 when the input is absent or empty. For every other input it returns
  the numbers of the comma-separated tokens that \<^verbatim>\<open>parseInt\<close> accepts after trimming,
  in order, and the result is empty exactly when no token parses.
\<close>

theorem parseNormalStatusCodes_result:
  "(\<not> truthy raw \<longrightarrow> parseNormalStatusCodes raw = [Num 200])
   \<and> (truthy raw \<longrightarrow>
         parseNormalStatusCodes raw
           = filter (\<lambda>n. n \<noteq> NaN)
               (map (\<lambda>tok. parseInt (trim tok)) (split CHR '','' (the raw)))
         \<and> (parseNormalStatusCodes raw = []
              \<longleftrightarrow> (\<forall>tok\<in>set (split CHR '','' (the raw)). parseInt (trim tok) = NaN)))"
proof -
  have 1: "parseNormalStatusCodes raw
             = filter (\<lambda>n. n \<noteq> NaN)
                 (map (\<lambda>tok. parseInt (trim tok)) (split CHR '','' (the raw)))"
    if "truthy raw"
    using that by (simp add: parseNormalStatusCodes_def isNaN_def)
  have 2: "parseNormalStatusCodes raw = []
             \<longleftrightarrow> (\<forall>tok\<in>set (split CHR '','' (the raw)). parseInt (trim tok) = NaN)"
    if "truthy raw"
    using set_parseNormalStatusCodes [OF that] set_empty [of "parseNormalStatusCodes raw"]
    by auto
  show ?thesis
    using 1 2 by (simp add: parseNormalStatusCodes_def)
qed

theorem parseNormalStatusCodes_result_witness:
  "parseNormalStatusCodes None = [Num 200]
   \<and> parseNormalStatusCodes (Some []) = [Num 200]
   \<and> truthy (Some ''200, 301 ,abc'')
   \<and> parseNormalStatusCodes (Some ''200, 301 ,abc'') = [Num 200, Num 301]"
proof -
  have t: "truthy (Some ''200, 301 ,abc'')" by simp
  have "parseNormalStatusCodes (Some ''200, 301 ,abc'')
          = filter (\<lambda>n. n \<noteq> NaN)
              (map (\<lambda>tok. parseInt (trim tok))
                 (split CHR '','' (the (Some ''200, 301 ,abc''))))"
    using parseNormalStatusCodes_result [of "Some ''200, 301 ,abc''"] t by blast
  then have 1: "parseNormalStatusCodes (Some ''200, 301 ,abc'') = [Num 200, Num 301]"
    by (simp only: option.sel tokens_200_301_abc)
  have 2: "parseNormalStatusCodes None = [Num 200]"
    "parseNormalStatusCodes (Some []) = [Num 200]"
    using parseNormalStatusCodes_result [of None] parseNormalStatusCodes_result [of "Some []"]
    by simp_all
  from t 1 2 show ?thesis by blast
qed

text \<open>The input \<^verbatim>\<open>abc\<close> is not empty, its one token does not parse, and the result is the
  empty list, not the default.\<close>

theorem parseNormalStatusCodes_all_unparseable:
  "truthy (Some ''abc'') \<and> parseInt (trim ''abc'') = NaN
   \<and> parseNormalStatusCodes (Some ''abc'') = []"
  by code_simp

text \<open>
  Claim C10, as the code has it. A token of a non-empty input whose trimmed text is a
  non-empty run of decimal digits followed by something that does not start with a
  decimal digit, and that does not begin with \<^verbatim>\<open>0x\<close> or \<^verbatim>\<open>0X\<close>, is kept: \<^verbatim>\<open>parseInt\<close>
  gives the Number value of the run, which is in the result, and which is the integer
  value of the run when that is below \<open>2^53\<close>.
\<close>

theorem parseNormalStatusCodes_numeric_prefix:
  assumes "truthy raw"
    and "tok \<in> set (split CHR '','' (the raw))"
    and "trim tok = ds @ rest"
    and "ds \<noteq> []" and "\<forall>d\<in>set ds. isDigit 10 d"
    and "rest = [] \<or> \<not> isDigit 10 (hd rest)"
    and "\<not> startsWith (trim tok) ''0x''" and "\<not> startsWith (trim tok) ''0X''"
  shows "parseInt (trim tok) = toNumber (digitsValue 10 ds)
         \<and> arrayIncludes (parseNormalStatusCodes raw) (toNumber (digitsValue 10 ds))
         \<and> (digitsValue 10 ds < 2 ^ 53
              \<longrightarrow> toNumber (digitsValue 10 ds) = Num (digitsValue 10 ds))"
proof -
  have p: "parseInt (trim tok) = toNumber (digitsValue 10 ds)"
    using parseInt_decimal_prefix [of ds rest] assms(3-8) by simp
  then have "toNumber (digitsValue 10 ds) \<in> set (parseNormalStatusCodes raw)"
    using set_parseNormalStatusCodes [OF assms(1)] assms(2) toNumber_not_NaN by blast
  moreover have "toNumber (digitsValue 10 ds) = Num (digitsValue 10 ds)"
    if "digitsValue 10 ds < 2 ^ 53"
    using that digitsValue_nonneg [of 10 ds] by (intro toNumber_exact) simp
  ultimately show ?thesis using p by (simp add: arrayIncludes_iff)
qed

theorem parseNormalStatusCodes_numeric_prefix_witness:
  "truthy (Some ''200,301abc'')
   \<and> ''301abc'' \<in> set (split CHR '','' ''200,301abc'')
   \<and> trim ''301abc'' = ''301'' @ ''abc''
   \<and> digitsValue 10 ''301'' < 2 ^ 53
   \<and> parseInt (trim ''301abc'') = Num 301
   \<and> arrayIncludes (parseNormalStatusCodes (Some ''200,301abc'')) (Num 301)"
proof -
  have 1: "truthy (Some ''200,301abc'')" by simp
  have 2: "''301abc'' \<in> set (split CHR '','' (the (Some ''200,301abc'')))" by simp
  have 3: "trim ''301abc'' = ''301'' @ ''abc''" by code_simp
  have 4: "''301'' \<noteq> []" by simp
  have 5: "\<forall>d\<in>set ''301''. isDigit 10 d" by (simp add: isDigit_def digitValue_def)
  have 6: "''abc'' = [] \<or> \<not> isDigit 10 (hd ''abc'')" by (simp add: isDigit_def digitValue_def)
  have 7: "\<not> startsWith (trim ''301abc'') ''0x''" "\<not> startsWith (trim ''301abc'') ''0X''"
    by (simp_all add: 3 startsWith_def)
  have 8: "digitsValue 10 ''301'' < 2 ^ 53" by (simp add: digitsValue_301)
  show ?thesis
    using parseNormalStatusCodes_numeric_prefix [OF 1 2 3 4 5 6 7] 1 2 3 8
    by (auto simp: digitsValue_301)
qed

text \<open>
  A token that begins with \<^verbatim>\<open>0x\<close> is read in radix 16: \<^verbatim>\<open>0xyz\<close> begins with the digit
  \<^verbatim>\<open>0\<close> followed by non-numeric characters and is discarded, and \<^verbatim>\<open>0x1f\<close> contributes
  31, not 0. A run of digits above \<open>2^53\<close> contributes the nearest double:
  \<^verbatim>\<open>9007199254740993abc\<close> contributes 9007199254740992.
\<close>

theorem parseNormalStatusCodes_hex_prefix:
  "trim ''0xyz'' = ''0'' @ ''xyz''
   \<and> isDigit 10 CHR ''0'' \<and> \<not> isDigit 10 CHR ''x''
   \<and> parseInt (trim ''0xyz'') = NaN
   \<and> parseNormalStatusCodes (Some ''0xyz'') = []
   \<and> parseNormalStatusCodes (Some ''0x1f'') = [Num 31]
   \<and> digitsValue 10 ''9007199254740993'' = 9007199254740993
   \<and> parseNormalStatusCodes (Some ''9007199254740993abc'') = [Num 9007199254740992]"
  by code_simp

end
